theory Spec2Isabelle
  imports Complex_Main "HOL-Library.Multiset" "HOL-Library.Word"
begin

section \<open>Values shared by the two notebooks\<close>

text \<open>
  A float64 cell is either the missing value NaN or a number. No cell of the notebooks'
  own code does arithmetic on sensor, demand or prediction values, so a number is kept
  as a real and rounding is never involved.
\<close>

datatype float64 = NaN | Num real

definition isnan :: "float64 \<Rightarrow> bool" where
  "isnan x = (x = NaN)"

text \<open>
  An int64 cell, as pandas reads whole-number columns and keeps dates: arithmetic on it
  wraps around, and order reads it as a signed number (\<open>sint\<close>).
\<close>

type_synonym int64 = "64 word"

text \<open>Python exceptions, each with its message (\<open>str(e)\<close>).\<close>

datatype exc =
    ValueError string
  | TypeError string
  | NameError string
  | IndexError string
  | KeyError string

fun str_exc :: "exc \<Rightarrow> string" where
  "str_exc (ValueError m) = m"
| "str_exc (TypeError m) = m"
| "str_exc (NameError m) = m"
| "str_exc (IndexError m) = m"
| "str_exc (KeyError m) = m"

text \<open>\<open>repr\<close> of a plain string: the text between single quotes.\<close>

definition repr :: "string \<Rightarrow> string" where
  "repr s = [CHR 0x27] @ s @ [CHR 0x27]"

section \<open>Energy notebook: the check-data cell\<close>

text \<open>
  An element of \<open>y_test\<close> or \<open>y_pred\<close> before the conversion: \<open>Numeric v\<close> is an
  element that \<open>astype(float)\<close> converts to \<open>v\<close>, \<open>NonNumeric s\<close> is a string that
  \<open>float\<close> rejects. The cell's comment says that such an element makes the conversion
  throw a ValueError.
\<close>

datatype elem = Numeric float64 | NonNumeric string

fun astype_float :: "elem list \<Rightarrow> exc + float64 list" where
  "astype_float [] = Inr []"
| "astype_float (Numeric v # xs) =
     (case astype_float xs of Inl e \<Rightarrow> Inl e | Inr vs \<Rightarrow> Inr (v # vs))"
| "astype_float (NonNumeric s # xs) =
     Inl (ValueError (''could not convert string to float: '' @ repr s))"

text \<open>\<open>~(np.isnan(a) | np.isnan(b))\<close>, element by element.\<close>

definition keep_mask :: "float64 list \<Rightarrow> float64 list \<Rightarrow> bool list" where
  "keep_mask a b = map (\<lambda>(x, y). \<not> (isnan x \<or> isnan y)) (zip a b)"

text \<open>Indexing an array with a boolean mask of its own length: \<open>xs[m]\<close>.\<close>

definition bool_index :: "'a list \<Rightarrow> bool list \<Rightarrow> 'a list" where
  "bool_index xs m = map fst (filter snd (zip xs m))"

definition msg_unequal :: string where
  "msg_unequal = ''the true values and prediction values do not have equal length.''"

definition msg_empty :: string where
  "msg_empty = ''y_true and y_pred are empty.''"

text \<open>
  The whole cell: the two guards, the two conversions, the two masked selections. The
  result is the pair of new values of \<open>y_test\<close> and \<open>y_pred\<close>, or the exception that
  leaves the cell.
\<close>

definition check_data :: "elem list \<Rightarrow> elem list \<Rightarrow> exc + (float64 list \<times> float64 list)" where
  "check_data y_test y_pred =
     (if length y_test \<noteq> length y_pred then Inl (ValueError msg_unequal)
      else if length y_test = 0 then Inl (ValueError msg_empty)
      else
        (case astype_float y_test of
           Inl e \<Rightarrow> Inl e
         | Inr y_test_f \<Rightarrow>
             (case astype_float y_pred of
                Inl e \<Rightarrow> Inl e
              | Inr y_pred_f \<Rightarrow>
                  Inr (bool_index y_test_f (keep_mask y_test_f y_pred_f),
                       bool_index y_pred_f (keep_mask y_test_f y_pred_f)))))"

section \<open>Data frames\<close>

text \<open>
  A frame is its rows in order, each with its index label. \<open>pd.read_csv\<close> gives the
  parsed records the labels 0, 1, 2, ... (parsing itself is not modelled: a frame is
  built from records that are already typed).
\<close>

type_synonym 'r frame = "(nat \<times> 'r) list"

definition read_csv :: "'r list \<Rightarrow> 'r frame" where
  "read_csv rs = enumerate 0 rs"

text \<open>
  A row seen as its labelled cells, in column order: what a selection of columns by
  position (\<open>iloc\<close>) or by name (\<open>pop\<close>) works on.
\<close>

type_synonym 'c items = "(string \<times> 'c) list"

text \<open>\<open>df.iloc[:, i:j]\<close> on one row.\<close>

definition iloc_cols :: "nat \<Rightarrow> nat \<Rightarrow> 'a list \<Rightarrow> 'a list" where
  "iloc_cols i j xs = take (j - i) (drop i xs)"

text \<open>\<open>df.pop(name)\<close>: the column leaves the frame and is returned; KeyError when absent.\<close>

definition pop_row :: "string \<Rightarrow> 'c items \<Rightarrow> exc + ('c \<times> 'c items)" where
  "pop_row name r =
     (case map_of r name of
        None \<Rightarrow> Inl (KeyError (repr name))
      | Some v \<Rightarrow> Inr (v, filter (\<lambda>kv. fst kv \<noteq> name) r))"

fun pop :: "string \<Rightarrow> 'c items frame \<Rightarrow> exc + ('c list \<times> 'c items frame)" where
  "pop name [] = Inr ([], [])"
| "pop name ((i, r) # df) =
     (case pop_row name r of
        Inl e \<Rightarrow> Inl e
      | Inr (v, r') \<Rightarrow>
          (case pop name df of
             Inl e \<Rightarrow> Inl e
           | Inr (vs, df') \<Rightarrow> Inr (v # vs, (i, r') # df')))"

section \<open>Energy notebook: temporal split and feature frames\<close>

text \<open>
  A datetime64 value is an int64: the nanoseconds since the epoch. The least int64 is
  \<open>NaT\<close>, the missing timestamp, which is what an empty \<open>timeStamp\<close> field of the file
  parses to. Every comparison with \<open>NaT\<close> is false; two timestamps compare as signed
  numbers.
\<close>

definition NaT :: int64 where
  "NaT = - (2 ^ 63)"

definition dt_less :: "int64 \<Rightarrow> int64 \<Rightarrow> bool" where
  "dt_less a b = (a \<noteq> NaT \<and> b \<noteq> NaT \<and> sint a < sint b)"

definition dt_ge :: "int64 \<Rightarrow> int64 \<Rightarrow> bool" where
  "dt_ge a b = (a \<noteq> NaT \<and> b \<noteq> NaT \<and> sint b \<le> sint a)"

text \<open>One record of \<open>nyc_energy.csv\<close>; \<open>timeStamp\<close> is parsed as a date.\<close>

record erow =
  timeStamp :: int64
  demand :: float64
  precip :: float64
  temp :: float64

datatype ecell = TimeC int64 | FloatE float64

definition erow_items :: "erow \<Rightarrow> ecell items" where
  "erow_items r =
     [(''timeStamp'', TimeC (timeStamp r)), (''demand'', FloatE (demand r)),
      (''precip'', FloatE (precip r)), (''temp'', FloatE (temp r))]"

text \<open>
  \<open>data[data['timeStamp'] < c]\<close> and \<open>data[data['timeStamp'] >= c]\<close>: a boolean
  mask over the rows, then the rows the mask keeps.
\<close>

definition rows_lt :: "int64 \<Rightarrow> erow frame \<Rightarrow> erow frame" where
  "rows_lt c df = bool_index df (map (\<lambda>(i, r). dt_less (timeStamp r) c) df)"

definition rows_ge :: "int64 \<Rightarrow> erow frame \<Rightarrow> erow frame" where
  "rows_ge c df = bool_index df (map (\<lambda>(i, r). dt_ge (timeStamp r) c) df)"

text \<open>
  The two cutovers of the notebook as datetime64 values: midnight of 2017-02-01 is
  17198 days after the epoch, midnight of 2017-01-01 is 17167 days after it.
\<close>

definition ns_per_day :: int64 where
  "ns_per_day = 86400 * 1000000000"

definition ts_2017_02_01 :: int64 where
  "ts_2017_02_01 = 17198 * ns_per_day"

definition ts_2017_01_01 :: int64 where
  "ts_2017_01_01 = 17167 * ns_per_day"

definition train :: "erow frame \<Rightarrow> erow frame" where
  "train data = rows_lt ts_2017_02_01 data"

definition test :: "erow frame \<Rightarrow> erow frame" where
  "test data = rows_ge ts_2017_02_01 data"

text \<open>\<open>y_test = test.pop('demand').values; X_test = test\<close>, and the same for the
  train and validation parts of \<open>train\<close>.\<close>

definition pop_demand :: "erow frame \<Rightarrow> exc + (ecell list \<times> ecell items frame)" where
  "pop_demand df = pop ''demand'' (map (\<lambda>(i, r). (i, erow_items r)) df)"

definition test_Xy :: "erow frame \<Rightarrow> exc + (ecell list \<times> ecell items frame)" where
  "test_Xy data = pop_demand (test data)"

definition train_Xy :: "erow frame \<Rightarrow> exc + (ecell list \<times> ecell items frame)" where
  "train_Xy data = pop_demand (rows_lt ts_2017_01_01 (train data))"

definition valid_Xy :: "erow frame \<Rightarrow> exc + (ecell list \<times> ecell items frame)" where
  "valid_Xy data = pop_demand (rows_ge ts_2017_01_01 (train data))"

section \<open>Maintenance notebook: the RUL column\<close>

text \<open>
  One record of \<open>train_FD001.txt\<close> under the 26 column names the notebook passes to
  \<open>read_csv\<close>: the unit, the cycle, three operational settings and 21 sensor
  measurements.
\<close>

record row =
  unit :: int64
  cycle :: int64
  os1 :: float64
  os2 :: float64
  os3 :: float64
  sm1 :: float64
  sm2 :: float64
  sm3 :: float64
  sm4 :: float64
  sm5 :: float64
  sm6 :: float64
  sm7 :: float64
  sm8 :: float64
  sm9 :: float64
  sm10 :: float64
  sm11 :: float64
  sm12 :: float64
  sm13 :: float64
  sm14 :: float64
  sm15 :: float64
  sm16 :: float64
  sm17 :: float64
  sm18 :: float64
  sm19 :: float64
  sm20 :: float64
  sm21 :: float64

definition names :: "string list" where
  "names =
     [''unit'', ''cycle'', ''os1'', ''os2'', ''os3'', ''sm1'', ''sm2'', ''sm3'', ''sm4'',
      ''sm5'', ''sm6'', ''sm7'', ''sm8'', ''sm9'', ''sm10'', ''sm11'', ''sm12'', ''sm13'',
      ''sm14'', ''sm15'', ''sm16'', ''sm17'', ''sm18'', ''sm19'', ''sm20'', ''sm21'']"

text \<open>A record of \<open>train_new\<close>: the same columns and, last, the new column \<open>rul\<close>.\<close>

record lrow = row +
  rul :: int64

text \<open>
  \<open>Series.max()\<close> of an int64 column, the largest element as a signed number; an
  empty column has no maximum.
\<close>

definition smax :: "int64 \<Rightarrow> int64 \<Rightarrow> int64" where
  "smax a b = (if sint a \<le> sint b then b else a)"

fun series_max :: "int64 list \<Rightarrow> int64 option" where
  "series_max [] = None"
| "series_max (x # xs) = Some (fold smax xs x)"

text \<open>
  \<open>assignrul(df)\<close>: \<open>maxi = df['cycle'].max()\<close>, then \<open>df['rul'] = maxi - df['cycle']\<close>.
  The name \<open>rul\<close> is not among the 26 names, so the assignment adds the column after
  them. The subtraction is that of int64 columns: it wraps around. On a frame with no row
  the new column is empty.
\<close>

definition assignrul :: "row frame \<Rightarrow> lrow frame" where
  "assignrul df =
     (case series_max (map (\<lambda>(i, r). cycle r) df) of
        None \<Rightarrow> []
      | Some maxi \<Rightarrow> map (\<lambda>(i, r). (i, row.extend r \<lparr>rul = maxi - cycle r\<rparr>)) df)"

text \<open>
  \<open>df.groupby('unit')\<close>: one group for each value of the column, the values in
  increasing (signed) order, each group the rows with that value in their order in the
  frame.
\<close>

definition groupby_unit :: "row frame \<Rightarrow> (int64 \<times> row frame) list" where
  "groupby_unit df =
     map (\<lambda>k. (k, filter (\<lambda>(i, r). unit r = k) df)) (sort_key sint (remdups (map (\<lambda>(i, r). unit r) df)))"

text \<open>
  \<open>result.reindex(ax)\<close>: the rows of \<open>result\<close> in the order of the labels \<open>ax\<close>. A
  label that \<open>result\<close> lacks gives a row of missing values (\<open>None\<close>); a label that
  \<open>result\<close> holds twice makes pandas raise.
\<close>

definition reindex :: "nat list \<Rightarrow> 'r frame \<Rightarrow> exc + 'r option frame" where
  "reindex ax result =
     (if distinct (map fst result) then Inr (map (\<lambda>l. (l, map_of result l)) ax)
      else Inl (ValueError ''cannot reindex from a duplicate axis''))"

text \<open>
  \<open>df.groupby('unit').apply(f)\<close> for an \<open>f\<close> that returns each group with its own
  index, as \<open>assignrul\<close> does: the results are concatenated in group order and then
  brought back to the row order of \<open>df\<close>.
\<close>

definition groupby_apply :: "(row frame \<Rightarrow> 'r frame) \<Rightarrow> row frame \<Rightarrow> exc + 'r option frame" where
  "groupby_apply f df = reindex (map fst df) (concat (map (\<lambda>(k, g). f g) (groupby_unit df)))"

definition train_new :: "row frame \<Rightarrow> exc + lrow option frame" where
  "train_new df = groupby_apply assignrul df"

section \<open>Maintenance notebook: features and target\<close>

text \<open>
  The 27 labelled cells of a row of \<open>train_new\<close>. A row of missing values has NaN in
  every column.
\<close>

datatype cell = IntC int64 | FloatC float64

definition lrow_items :: "lrow option \<Rightarrow> cell items" where
  "lrow_items x =
     (case x of
        None \<Rightarrow> map (\<lambda>n. (n, FloatC NaN)) (names @ [''rul''])
      | Some r \<Rightarrow>
          [(''unit'', IntC (unit r)), (''cycle'', IntC (cycle r)),
           (''os1'', FloatC (os1 r)), (''os2'', FloatC (os2 r)), (''os3'', FloatC (os3 r)),
           (''sm1'', FloatC (sm1 r)), (''sm2'', FloatC (sm2 r)), (''sm3'', FloatC (sm3 r)),
           (''sm4'', FloatC (sm4 r)), (''sm5'', FloatC (sm5 r)), (''sm6'', FloatC (sm6 r)),
           (''sm7'', FloatC (sm7 r)), (''sm8'', FloatC (sm8 r)), (''sm9'', FloatC (sm9 r)),
           (''sm10'', FloatC (sm10 r)), (''sm11'', FloatC (sm11 r)), (''sm12'', FloatC (sm12
           r)), (''sm13'', FloatC (sm13 r)), (''sm14'', FloatC (sm14 r)), (''sm15'', FloatC
           (sm15 r)), (''sm16'', FloatC (sm16 r)), (''sm17'', FloatC (sm17 r)), (''sm18'',
           FloatC (sm18 r)), (''sm19'', FloatC (sm19 r)), (''sm20'', FloatC (sm20 r)),
           (''sm21'', FloatC (sm21 r)),
           (''rul'', IntC (rul r))])"

text \<open>
  \<open>.values\<close> turns the cells of a slice into floats. \<open>.astype(int)\<close>, on the 64-bit
  Linux kernel of the notebook, leaves an int64 as it is, truncates a float towards zero
  and sends NaN and the floats beyond the int64 range to the least int64.
\<close>

fun cell_float :: "cell \<Rightarrow> float64" where
  "cell_float (IntC i) = Num (of_int (sint i))"
| "cell_float (FloatC x) = x"

fun cell_astype_int :: "cell \<Rightarrow> int64" where
  "cell_astype_int (IntC i) = i"
| "cell_astype_int (FloatC NaN) = - (2 ^ 63)"
| "cell_astype_int (FloatC (Num x)) =
     (let k = (if x < 0 then \<lceil>x\<rceil> else \<lfloor>x\<rfloor>)
      in if - (2 ^ 63) \<le> k \<and> k < 2 ^ 63 then word_of_int k else - (2 ^ 63))"

text \<open>\<open>X_train = train_new.iloc[:,2:26].values\<close>, with the labels kept beside the values.\<close>

definition X_items :: "lrow option frame \<Rightarrow> cell items list" where
  "X_items df = map (\<lambda>(i, x). iloc_cols 2 26 (lrow_items x)) df"

definition X_values :: "lrow option frame \<Rightarrow> float64 list list" where
  "X_values df = map (map (cell_float \<circ> snd)) (X_items df)"

text \<open>\<open>y_train = train_new.iloc[:,26:27].values.astype(int).flatten()\<close>.\<close>

definition y_items :: "lrow option frame \<Rightarrow> cell items list" where
  "y_items df = map (\<lambda>(i, x). iloc_cols 26 27 (lrow_items x)) df"

definition y_values :: "lrow option frame \<Rightarrow> int64 list" where
  "y_values df = concat (map (map (cell_astype_int \<circ> snd)) (y_items df))"

text \<open>The columns of \<open>X_train\<close>: the columns 2 to 25 of \<open>train_new\<close>.\<close>

definition sensor_names :: "string list" where
  "sensor_names = iloc_cols 2 26 (names @ [''rul''])"

section \<open>Maintenance notebook: the random split\<close>

text \<open>
  The split is scikit-learn's \<open>train_test_split\<close>, which the notebook calls with
  \<open>test_size=0.3\<close> and \<open>random_state=100\<close>. It is library code, modelled as the
  library documents it: the number of test rows is \<open>ceil(test_size * n)\<close>, the train
  rows are the rest, a permutation of the row numbers is drawn, its first \<open>n_test\<close>
  entries select the test rows and the following \<open>n_train\<close> entries the train rows, of
  \<open>X\<close> and \<open>y\<close> alike. The releases the notebook's kernel can run differ in one
  point: the later ones raise when the train side would be empty, the earlier ones
  return it empty. The parameter \<open>refuse_empty\<close> says which release is in use.

  The generator of numpy is a parameter: \<open>'g\<close> is the type of its states,
  \<open>RandomState seed\<close> is the state of a new generator made from a seed, and
  \<open>permutation st n\<close> draws an arrangement of the numbers below \<open>n\<close> and gives the
  state after the draw. The process holds one global generator, whose state is threaded
  through the call.
\<close>

record 'g numpy_random =
  RandomState :: "nat \<Rightarrow> 'g"
  permutation :: "'g \<Rightarrow> nat \<Rightarrow> nat list \<times> 'g"

text \<open>
  \<open>check_random_state(random_state)\<close> followed by \<open>rng.permutation(n)\<close>: with a seed
  a new generator is made and the global one is left alone; with \<open>None\<close> the global
  generator is used and advanced.
\<close>

definition shuffled :: "'g numpy_random \<Rightarrow> nat option \<Rightarrow> nat \<Rightarrow> 'g \<Rightarrow> nat list \<times> 'g" where
  "shuffled np random_state n g =
     (case random_state of
        None \<Rightarrow> permutation np g n
      | Some seed \<Rightarrow> (fst (permutation np (RandomState np seed) n), g))"

text \<open>\<open>a[ind]\<close> for a list of row numbers; numpy raises on a number out of range.\<close>

definition safe_indexing :: "'a list \<Rightarrow> nat list \<Rightarrow> exc + 'a list" where
  "safe_indexing a ind =
     (if list_all (\<lambda>i. i < length a) ind then Inr (map (nth a) ind)
      else Inl (IndexError ''index is out of bounds''))"

definition train_test_split ::
  "'g numpy_random \<Rightarrow> bool \<Rightarrow> 'a list \<Rightarrow> 'b list \<Rightarrow> real \<Rightarrow> nat option \<Rightarrow> 'g
     \<Rightarrow> (exc + ('a list \<times> 'a list \<times> 'b list \<times> 'b list)) \<times> 'g" where
  "train_test_split np refuse_empty X y test_size random_state g =
     (if length X \<noteq> length y then
        (Inl (ValueError ''Found input variables with inconsistent numbers of samples''), g)
      else if test_size \<le> 0 \<or> 1 \<le> test_size then
        (Inl (ValueError ''test_size should be between 0.0 and 1.0''), g)
      else
        (let n_samples = length X;
             n_test = nat \<lceil>test_size * real n_samples\<rceil>;
             n_train = n_samples - n_test
         in
           if refuse_empty \<and> n_train = 0 then
             (Inl (ValueError ''the resulting train set will be empty''), g)
           else
             (let (perm, g') = shuffled np random_state n_samples g;
                  ind_test = take n_test perm;
                  ind_train = take n_train (drop n_test perm)
              in
                (case (safe_indexing X ind_train, safe_indexing X ind_test,
                       safe_indexing y ind_train, safe_indexing y ind_test) of
                   (Inr X_tr, Inr X_te, Inr y_tr, Inr y_te) \<Rightarrow>
                     (Inr (X_tr, X_te, y_tr, y_te), g')
                 | _ \<Rightarrow> (Inl (IndexError ''index is out of bounds''), g')))))"

text \<open>
  The notebook's cell:
  \<open>train_test_split(X_train, y_train, test_size=0.3, random_state=100)\<close>.
\<close>

definition split_cell ::
  "'g numpy_random \<Rightarrow> bool \<Rightarrow> 'a list \<Rightarrow> 'b list \<Rightarrow> 'g
     \<Rightarrow> (exc + ('a list \<times> 'a list \<times> 'b list \<times> 'b list)) \<times> 'g" where
  "split_cell np refuse_empty X y g =
     train_test_split np refuse_empty X y (3 / 10) (Some 100) g"

text \<open>The maintenance notebook from the loaded records to the four arrays of the split.\<close>

definition maintenance_sets ::
  "'g numpy_random \<Rightarrow> bool \<Rightarrow> row list \<Rightarrow> 'g
     \<Rightarrow> (exc + (float64 list list \<times> float64 list list \<times> int64 list \<times> int64 list)) \<times> 'g" where
  "maintenance_sets np refuse_empty rows g =
     (case train_new (read_csv rows) of
        Inl e \<Rightarrow> (Inl e, g)
      | Inr df \<Rightarrow> split_cell np refuse_empty (X_values df) (y_values df) g)"

section \<open>The scoring scripts\<close>

text \<open>A JSON document; \<open>json.dumps\<close> returns its text, which is not modelled further.\<close>

datatype json =
    JNull
  | JNum float64
  | JStr string
  | JList "json list"
  | JObj "(string \<times> json) list"

text \<open>The Python values an argument of \<open>run\<close> can be.\<close>

datatype pyval =
    PNone
  | PFloat float64
  | PStr string
  | PList "pyval list"
  | PDict "(string \<times> pyval) list"
  | PSet "pyval list"

fun type_name :: "pyval \<Rightarrow> string" where
  "type_name PNone = ''NoneType''"
| "type_name (PFloat x) = ''float''"
| "type_name (PStr s) = ''str''"
| "type_name (PList vs) = ''list''"
| "type_name (PDict kvs) = ''dict''"
| "type_name (PSet vs) = ''set''"

fun hashable :: "pyval \<Rightarrow> bool" where
  "hashable (PList vs) = False"
| "hashable (PDict kvs) = False"
| "hashable (PSet vs) = False"
| "hashable v = True"

text \<open>The set display \<open>{a, b, c}\<close>: every element is hashed, equal elements merge.\<close>

definition set_display :: "pyval list \<Rightarrow> exc + pyval" where
  "set_display vs =
     (case filter (\<lambda>v. \<not> hashable v) vs of
        [] \<Rightarrow> Inr (PSet (remdups vs))
      | v # _ \<Rightarrow> Inl (TypeError (''unhashable type: '' @ repr (type_name v))))"

text \<open>The first exception of a list of results, or all the values.\<close>

fun all_values :: "('e + 'a) list \<Rightarrow> 'e + 'a list" where
  "all_values [] = Inr []"
| "all_values (Inl e # rs) = Inl e"
| "all_values (Inr v # rs) = (case all_values rs of Inl e \<Rightarrow> Inl e | Inr vs \<Rightarrow> Inr (v # vs))"

text \<open>\<open>json.dumps\<close>: a set is not serializable.\<close>

fun json_dumps :: "pyval \<Rightarrow> exc + json" where
  "json_dumps PNone = Inr JNull"
| "json_dumps (PFloat x) = Inr (JNum x)"
| "json_dumps (PStr s) = Inr (JStr s)"
| "json_dumps (PList vs) =
     (case all_values (map json_dumps vs) of Inl e \<Rightarrow> Inl e | Inr js \<Rightarrow> Inr (JList js))"
| "json_dumps (PDict kvs) =
     (case all_values (map (\<lambda>kv. json_dumps (snd kv)) kvs) of
        Inl e \<Rightarrow> Inl e
      | Inr js \<Rightarrow> Inr (JObj (zip (map fst kvs) js)))"
| "json_dumps (PSet vs) = Inl (TypeError ''Object of type 'set' is not JSON serializable'')"

fun json_loads :: "json \<Rightarrow> pyval" where
  "json_loads JNull = PNone"
| "json_loads (JNum x) = PFloat x"
| "json_loads (JStr s) = PStr s"
| "json_loads (JList js) = PList (map json_loads js)"
| "json_loads (JObj kvs) = PDict (map (\<lambda>kv. (fst kv, json_loads (snd kv))) kvs)"

text \<open>Reading a global name of a module: NameError when the module never binds it.\<close>

definition load_name :: "string list \<Rightarrow> string \<Rightarrow> exc + unit" where
  "load_name globals name =
     (if name \<in> set globals then Inr ()
      else Inl (NameError (''name '' @ repr name @ '' is not defined'')))"

subsection \<open>score_energy_demand.py\<close>

text \<open>
  The names the module binds: its imports (numpy is imported as \<open>np\<close>), its two
  functions and the global \<open>model\<close> that \<open>init\<close> sets.
\<close>

definition score_energy_demand_globals :: "string list" where
  "score_energy_demand_globals =
     [''pickle'', ''json'', ''np'', ''azureml'', ''joblib'', ''Model'', ''init'', ''run'',
      ''model'']"

text \<open>
  The statements of the \<open>try\<close> block that follow \<open>rawdata = json.dumps(...)\<close>:
  \<open>data = json.loads(rawdata)\<close>, \<open>data_arr = numpy.array(data)\<close>,
  \<open>result = model.predict(data_arr)\<close>. The fitted model's \<open>predict\<close> is a parameter.
\<close>

definition after_dumps :: "(pyval \<Rightarrow> exc + float64 list) \<Rightarrow> json \<Rightarrow> exc + float64 list" where
  "after_dumps predict rawdata =
     (let data = json_loads rawdata in
      case load_name score_energy_demand_globals ''numpy'' of
        Inl e \<Rightarrow> Inl e
      | Inr _ \<Rightarrow> predict data)"

definition try_block ::
  "(pyval \<Rightarrow> exc + float64 list) \<Rightarrow> pyval \<Rightarrow> pyval \<Rightarrow> pyval \<Rightarrow> exc + float64 list" where
  "try_block predict timestamp precip' temp' =
     (case set_display [timestamp, precip', temp'] of
        Inl e \<Rightarrow> Inl e
      | Inr s \<Rightarrow>
          (case json_dumps s of
             Inl e \<Rightarrow> Inl e
           | Inr rawdata \<Rightarrow> after_dumps predict rawdata))"

text \<open>
  \<open>run(timestamp, precip, temp)\<close>: every exception of the \<open>try\<close> block is caught and
  returned as \<open>{"error": str(e)}\<close>; otherwise \<open>{"result": result.tolist()}\<close> is
  returned. The value is what the caller gets: a document, or an exception.
\<close>

definition score_energy_demand_run ::
  "(pyval \<Rightarrow> exc + float64 list) \<Rightarrow> pyval \<Rightarrow> pyval \<Rightarrow> pyval \<Rightarrow> exc + json" where
  "score_energy_demand_run predict timestamp precip' temp' =
     (case try_block predict timestamp precip' temp' of
        Inl e \<Rightarrow> Inr (JObj [(''error'', JStr (str_exc e))])
      | Inr result \<Rightarrow> Inr (JObj [(''result'', JList (map JNum result))]))"

subsection \<open>score.py\<close>

text \<open>
  A numpy array: its shape and its elements in row-major order. An element is a number
  or, in the array numpy builds from rows of unequal lengths, a Python list.
\<close>

datatype aelem = ANum float64 | AList "float64 list"

record ndarray =
  shape :: "nat list"
  flat :: "aelem list"

definition np_array :: "float64 list list \<Rightarrow> ndarray" where
  "np_array rows =
     (case rows of
        [] \<Rightarrow> \<lparr>shape = [0], flat = []\<rparr>
      | r # rs \<Rightarrow>
          if list_all (\<lambda>r'. length r' = length r) rs
          then \<lparr>shape = [length rows, length r], flat = map ANum (concat rows)\<rparr>
          else \<lparr>shape = [length rows], flat = map AList rows\<rparr>)"

text \<open>
  \<open>a.reshape(newshape)\<close>, where one dimension may be \<open>-1\<close> and is then computed from
  the number of elements.
\<close>

definition reshape :: "int list \<Rightarrow> ndarray \<Rightarrow> exc + ndarray" where
  "reshape newshape a =
     (let size = int (length (flat a));
          known = prod_list (filter (\<lambda>d. d \<noteq> - 1) newshape)
      in
        if list_ex (\<lambda>d. d < - 1) newshape then
          Inl (ValueError ''negative dimensions not allowed'')
        else if 1 < length (filter (\<lambda>d. d = - 1) newshape) then
          Inl (ValueError ''can only specify one unknown dimension'')
        else if - 1 \<in> set newshape then
          (if known = 0 \<or> size mod known \<noteq> 0 then
             Inl (ValueError ''cannot reshape array'')
           else
             Inr \<lparr>shape = map (\<lambda>d. nat (if d = - 1 then size div known else d)) newshape,
                  flat = flat a\<rparr>)
        else if known = size then Inr \<lparr>shape = map nat newshape, flat = flat a\<rparr>
        else Inl (ValueError ''cannot reshape array''))"

definition n_samples :: "ndarray \<Rightarrow> nat" where
  "n_samples a = (case shape a of [] \<Rightarrow> 0 | n # _ \<Rightarrow> n)"

text \<open>
  \<open>run(raw_data)\<close>, on the \<open>data\<close> rows of the request body: the array is reshaped to
  \<open>(1, -1)\<close>, the model predicts, and the list of predictions is returned as JSON.
  Nothing is caught: an exception reaches the caller.
\<close>

definition score_run ::
  "(ndarray \<Rightarrow> exc + float64 list) \<Rightarrow> float64 list list \<Rightarrow> exc + json" where
  "score_run predict body_data =
     (case reshape [1, - 1] (np_array body_data) of
        Inl e \<Rightarrow> Inl e
      | Inr data \<Rightarrow>
          (case predict data of
             Inl e \<Rightarrow> Inl e
           | Inr y_hat \<Rightarrow> Inr (JList (map JNum y_hat))))"

text \<open>The array that reaches the model: one row that holds every element.\<close>

definition reshaped :: "float64 list list \<Rightarrow> ndarray" where
  "reshaped rows = \<lparr>shape = [1, length (flat (np_array rows))], flat = flat (np_array rows)\<rparr>"

text \<open>The two shapes of a response object.\<close>

fun is_result_object :: "json \<Rightarrow> bool" where
  "is_result_object (JObj [(k, JList ys)]) = (k = ''result'')"
| "is_result_object _ = False"

fun is_error_object :: "json \<Rightarrow> bool" where
  "is_error_object (JObj [(k, JStr m)]) = (k = ''error'')"
| "is_error_object _ = False"

section \<open>The targets as the specification states them\<close>

text \<open>
  The labelling rule in the specification's words, over the integers: the target of a
  record is the largest cycle among the records of its unit, minus its own cycle. These
  two definitions follow the specification; \<open>assignrul\<close> and \<open>groupby_apply\<close> above
  follow the code, whose subtraction is that of int64.
\<close>

definition group_max_cycle :: "row list \<Rightarrow> int64 \<Rightarrow> int" where
  "group_max_cycle rows k = Max ((\<lambda>r. sint (cycle r)) ` {r \<in> set rows. unit r = k})"

definition rul_target :: "row list \<Rightarrow> row \<Rightarrow> int" where
  "rul_target rows r = group_max_cycle rows (unit r) - sint (cycle r)"

text \<open>The 24 settings and measurements of a record, in column order.\<close>

definition sensors :: "row \<Rightarrow> float64 list" where
  "sensors r =
     [os1 r, os2 r, os3 r, sm1 r, sm2 r, sm3 r, sm4 r, sm5 r, sm6 r, sm7 r, sm8 r, sm9 r,
      sm10 r, sm11 r, sm12 r, sm13 r, sm14 r, sm15 r, sm16 r, sm17 r, sm18 r, sm19 r,
      sm20 r, sm21 r]"

text \<open>The frame with, in each row, the target as an int64 holds it.\<close>

definition labelled :: "row list \<Rightarrow> row frame \<Rightarrow> lrow option frame" where
  "labelled rows df =
     map (\<lambda>(i, r). (i, Some (row.extend r \<lparr>rul = word_of_int (rul_target rows r)\<rparr>))) df"

section \<open>Sample inputs\<close>

text \<open>A record of unit \<open>u\<close> at cycle \<open>c\<close>, with fixed settings and measurements.\<close>

definition sample_row :: "int64 \<Rightarrow> int64 \<Rightarrow> row" where
  "sample_row u c =
     \<lparr>unit = u, cycle = c, os1 = Num 0, os2 = Num 0, os3 = Num 100,
      sm1 = Num 518, sm2 = Num 642, sm3 = Num 1589, sm4 = Num 1400, sm5 = Num 14,
      sm6 = Num 21, sm7 = Num 554, sm8 = Num 2388, sm9 = Num 9046, sm10 = Num 1,
      sm11 = Num 47, sm12 = Num 521, sm13 = Num 2388, sm14 = Num 8138, sm15 = Num 8,
      sm16 = Num 0, sm17 = Num 392, sm18 = Num 2388, sm19 = Num 100, sm20 = Num 39,
      sm21 = Num 23\<rparr>"

definition rul_scenario :: "row list" where
  "rul_scenario = [sample_row 1 1, sample_row 1 2, sample_row 1 3, sample_row 2 1, sample_row 2 2]"

text \<open>One unit whose two cycles are the int64 values -1 and 2^63 - 1.\<close>

definition rul_overflow :: "row list" where
  "rul_overflow = [sample_row 1 (- 1), sample_row 1 (2 ^ 63 - 1)]"

text \<open>
  A generator for the samples: the seed is the state, a draw in an even state reverses
  the numbers, a draw in an odd state rotates them by one, and every draw moves the
  state on.
\<close>

definition alternating :: "nat numpy_random" where
  "alternating =
     \<lparr>RandomState = (\<lambda>seed. seed),
      permutation = (\<lambda>st n. (if even st then rev [0..<n] else rotate1 [0..<n], Suc st))\<rparr>"

text \<open>
  A fitted model for the samples: it takes arrays of 24 columns, as \<open>X_train\<close> has, and
  predicts 112 for every row. And a forecaster that predicts 5000 for any input.
\<close>

definition sample_model :: "ndarray \<Rightarrow> exc + float64 list" where
  "sample_model X =
     (case shape X of
        [n, k] \<Rightarrow>
          if k = 24 then Inr (replicate n (Num 112))
          else Inl (ValueError ''Number of features of the model must match the input'')
      | _ \<Rightarrow> Inl (ValueError ''Expected 2D array''))"

definition sample_features :: "float64 list" where
  "sample_features = sensors (sample_row 1 1)"

definition sample_forecaster :: "pyval \<Rightarrow> exc + float64 list" where
  "sample_forecaster data = Inr [Num 5000]"

text \<open>Six records from 2016-01-01 to 2017-03-01; one is dated 2017-01-31 23:00.\<close>

definition energy_sample :: "erow list" where
  "energy_sample =
     [\<lparr>timeStamp = 16801 * ns_per_day, demand = Num 4937, precip = Num 0, temp = Num 46\<rparr>,
      \<lparr>timeStamp = 17166 * ns_per_day, demand = Num 5200, precip = Num 0, temp = Num 40\<rparr>,
      \<lparr>timeStamp = 17167 * ns_per_day, demand = NaN, precip = Num 0, temp = Num 41\<rparr>,
      \<lparr>timeStamp = 17197 * ns_per_day + 82800 * 1000000000, demand = Num 5100,
       precip = Num 1, temp = Num 30\<rparr>,
      \<lparr>timeStamp = 17198 * ns_per_day, demand = Num 5300, precip = NaN, temp = Num 28\<rparr>,
      \<lparr>timeStamp = 17226 * ns_per_day, demand = Num 5000, precip = Num 0, temp = Num 35\<rparr>]"

text \<open>Three records; the timestamp of the second is missing.\<close>

definition energy_missing :: "erow list" where
  "energy_missing =
     [\<lparr>timeStamp = 17166 * ns_per_day, demand = Num 5200, precip = Num 0, temp = Num 40\<rparr>,
      \<lparr>timeStamp = NaT, demand = Num 5100, precip = Num 0, temp = Num 41\<rparr>,
      \<lparr>timeStamp = 17198 * ns_per_day, demand = Num 5300, precip = Num 0, temp = Num 28\<rparr>]"

section \<open>Properties of the check-data cell\<close>

lemma astype_float_Numeric: "astype_float (map Numeric vs) = Inr vs"
  by (induction vs) simp_all

lemma astype_float_error:
  "astype_float xs = Inl e \<Longrightarrow>
     \<exists>s. e = ValueError (''could not convert string to float: '' @ repr s)"
proof (induction xs rule: astype_float.induct)
  case 1
  then show ?case by simp
next
  case (2 v xs)
  then show ?case by (simp split: sum.splits)
next
  case (3 s xs)
  then show ?case by auto
qed

lemma bool_index_keep_mask_fst:
  "length a = length b \<Longrightarrow>
     bool_index a (keep_mask a b) = map fst (filter (\<lambda>(x, y). x \<noteq> NaN \<and> y \<noteq> NaN) (zip a b))"
proof (induction a b rule: list_induct2)
  case Nil
  then show ?case by (simp add: bool_index_def keep_mask_def)
next
  case (Cons x xs y ys)
  then show ?case by (simp add: bool_index_def keep_mask_def isnan_def)
qed

lemma bool_index_keep_mask_snd:
  "length a = length b \<Longrightarrow>
     bool_index b (keep_mask a b) = map snd (filter (\<lambda>(x, y). x \<noteq> NaN \<and> y \<noteq> NaN) (zip a b))"
proof (induction a b rule: list_induct2)
  case Nil
  then show ?case by (simp add: bool_index_def keep_mask_def)
next
  case (Cons x xs y ys)
  then show ?case by (simp add: bool_index_def keep_mask_def isnan_def)
qed

lemma astype_float_fails:
  "(\<exists>e. astype_float xs = Inl e) = (\<exists>s. NonNumeric s \<in> set xs)"
proof (induction xs rule: astype_float.induct)
  case 1
  then show ?case by simp
next
  case (2 v xs)
  then show ?case by (auto split: sum.splits)
next
  case (3 s xs)
  then show ?case by auto
qed

lemma astype_float_message:
  "astype_float xs = Inl e \<Longrightarrow>
     \<exists>s. NonNumeric s \<in> set xs \<and>
         e = ValueError (''could not convert string to float: '' @ repr s)"
proof (induction xs rule: astype_float.induct)
  case 1
  then show ?case by simp
next
  case (2 v xs)
  then show ?case by (auto split: sum.splits)
next
  case (3 s xs)
  then show ?case by auto
qed

text \<open>
  Claim C7, as stated, fails on two sequences of equal length that are not empty when one
  element is not numeric: the cell fails there too, with the ValueError of
  \<open>astype(float)\<close> that its comment announces.
\<close>

theorem check_data_conversion_counterexample:
  "length [NonNumeric ''unknown''] = length [Numeric (Num 2)] \<and>
   [NonNumeric ''unknown''] \<noteq> [] \<and>
   check_data [NonNumeric ''unknown''] [Numeric (Num 2)]
     = Inl (ValueError (''could not convert string to float: '' @ repr ''unknown''))"
  by (simp add: check_data_def)

text \<open>
  Claim C7, amended. The cell fails exactly when the two sequences have unequal lengths,
  or are both empty, or hold an element that is not numeric, and every failure is a
  ValueError. The message names the violated invariant: the unequal-length message is
  raised exactly on unequal lengths, the empty message exactly on two empty sequences,
  and any other failure is the conversion error of a non-numeric element of two
  sequences of equal length that are not empty. The error is the value the cell ends
  with: it reaches the caller, nothing is run again.
\<close>

theorem check_data_validation_errors:
  "(check_data a b = Inl (ValueError msg_unequal)) = (length a \<noteq> length b) \<and>
   (check_data a b = Inl (ValueError msg_empty)) = (a = [] \<and> b = []) \<and>
   (\<exists>e. check_data a b = Inl e)
      = (length a \<noteq> length b \<or> (a = [] \<and> b = []) \<or> (\<exists>s. NonNumeric s \<in> set a \<union> set b)) \<and>
   (\<forall>e. check_data a b = Inl e \<longrightarrow> (\<exists>m. e = ValueError m)) \<and>
   (\<forall>e. check_data a b = Inl e \<and> e \<noteq> ValueError msg_unequal \<and> e \<noteq> ValueError msg_empty \<longrightarrow>
        length a = length b \<and> a \<noteq> [] \<and>
        (\<exists>s. NonNumeric s \<in> set a \<union> set b \<and>
             e = ValueError (''could not convert string to float: '' @ repr s)))"
proof -
  have unequal: "(check_data a b = Inl (ValueError msg_unequal)) = (length a \<noteq> length b)"
    by (auto simp: check_data_def msg_unequal_def msg_empty_def
        split: sum.splits dest!: astype_float_error)
  have empty: "(check_data a b = Inl (ValueError msg_empty)) = (a = [] \<and> b = [])"
    by (auto simp: check_data_def msg_unequal_def msg_empty_def
        split: sum.splits dest!: astype_float_error)
  have fails: "(\<exists>e. check_data a b = Inl e)
      = (length a \<noteq> length b \<or> (a = [] \<and> b = []) \<or> (\<exists>s. NonNumeric s \<in> set a \<union> set b))"
  proof (cases "length a \<noteq> length b \<or> a = []")
    case True
    then show ?thesis by (auto simp: check_data_def)
  next
    case False
    then have "(\<exists>e. check_data a b = Inl e)
        = ((\<exists>e. astype_float a = Inl e) \<or> (\<exists>e. astype_float b = Inl e))"
      by (auto simp: check_data_def split: sum.splits)
    with False show ?thesis
      unfolding astype_float_fails by auto
  qed
  have kind: "\<forall>e. check_data a b = Inl e \<longrightarrow> (\<exists>m. e = ValueError m)"
    by (auto simp: check_data_def split: sum.splits if_splits dest!: astype_float_error)
  have other: "\<forall>e. check_data a b = Inl e \<and> e \<noteq> ValueError msg_unequal \<and>
        e \<noteq> ValueError msg_empty \<longrightarrow>
        length a = length b \<and> a \<noteq> [] \<and>
        (\<exists>s. NonNumeric s \<in> set a \<union> set b \<and>
             e = ValueError (''could not convert string to float: '' @ repr s))"
    by (auto simp: check_data_def split: sum.splits if_splits dest!: astype_float_message)
  from unequal empty fails kind other show ?thesis
    by blast
qed

theorem check_data_validation_errors_witness:
  "check_data [Numeric (Num 1), Numeric (Num 2)] [Numeric (Num 1)] = Inl (ValueError msg_unequal) \<and>
   check_data [] [] = Inl (ValueError msg_empty) \<and>
   check_data [Numeric (Num 1)] [Numeric (Num 2)] = Inr ([Num 1], [Num 2]) \<and>
   check_data [Numeric (Num 1)] [NonNumeric ''unknown'']
     = Inl (ValueError (''could not convert string to float: '' @ repr ''unknown''))"
  using check_data_validation_errors [of "[Numeric (Num 1), Numeric (Num 2)]" "[Numeric (Num 1)]"]
    check_data_validation_errors [of "[]" "[]"]
  by (simp add: check_data_def bool_index_def keep_mask_def isnan_def)

text \<open>
  Claim C6, as stated, fails on the pair of empty sequences: they have equal lengths,
  and the cell raises instead of returning two sequences.
\<close>

theorem check_data_empty_counterexample:
  "length ([] :: elem list) = length ([] :: elem list) \<and>
   check_data [] [] = Inl (ValueError ''y_true and y_pred are empty.'')"
  by (simp add: check_data_def msg_empty_def)

text \<open>
  Claim C6, amended. For every pair of numeric sequences of equal length that are not
  empty, the cell returns two sequences of equal length in which no value is NaN; they
  are the pairs of the inputs, in order, without exactly the positions at which at least
  one of the two values is NaN.
\<close>

theorem check_data_removes_nan:
  assumes "length af = length bf" and "af \<noteq> []"
  shows "\<exists>a' b'. check_data (map Numeric af) (map Numeric bf) = Inr (a', b') \<and>
           length a' = length b' \<and> NaN \<notin> set a' \<and> NaN \<notin> set b' \<and>
           zip a' b' = filter (\<lambda>(x, y). \<not> (isnan x \<or> isnan y)) (zip af bf)"
proof -
  let ?kept = "filter (\<lambda>(x, y). x \<noteq> NaN \<and> y \<noteq> NaN) (zip af bf)"
  have run: "check_data (map Numeric af) (map Numeric bf) = Inr (map fst ?kept, map snd ?kept)"
    using assms
    by (auto simp: check_data_def astype_float_Numeric bool_index_keep_mask_fst
        bool_index_keep_mask_snd)
  have "NaN \<notin> set (map fst ?kept)" and "NaN \<notin> set (map snd ?kept)"
    by auto
  moreover have "zip (map fst ?kept) (map snd ?kept) = ?kept"
    by (simp add: zip_map_fst_snd)
  ultimately show ?thesis
    using run by (simp add: isnan_def)
qed

theorem check_data_removes_nan_witness:
  "length [Num 1, NaN, Num 3, Num 7] = length [Num 4, Num 5, NaN, Num 8] \<and>
   [Num 1, NaN, Num 3, Num 7] \<noteq> [] \<and>
   check_data (map Numeric [Num 1, NaN, Num 3, Num 7]) (map Numeric [Num 4, Num 5, NaN, Num 8])
     = Inr ([Num 1, Num 7], [Num 4, Num 8])"
  using check_data_removes_nan [of "[Num 1, NaN, Num 3, Num 7]" "[Num 4, Num 5, NaN, Num 8]"]
  by (simp add: check_data_def bool_index_def keep_mask_def isnan_def)

section \<open>Properties of the temporal split\<close>

lemma bool_index_map: "bool_index xs (map p xs) = filter p xs"
  by (induction xs) (simp_all add: bool_index_def)

lemma rows_lt_filter: "rows_lt c df = filter (\<lambda>x. dt_less (timeStamp (snd x)) c) df"
  by (simp add: rows_lt_def bool_index_map case_prod_unfold)

lemma rows_ge_filter: "rows_ge c df = filter (\<lambda>x. dt_ge (timeStamp (snd x)) c) df"
  by (simp add: rows_ge_def bool_index_map case_prod_unfold)

lemma dt_ge_iff: "c \<noteq> NaT \<Longrightarrow> dt_ge t c = (t \<noteq> NaT \<and> \<not> dt_less t c)"
  by (auto simp: dt_ge_def dt_less_def)

lemma mset_filter_split: "mset (filter p xs) + mset (filter (\<lambda>x. \<not> p x) xs) = mset xs"
  by (induction xs) simp_all

lemma mset_filter_three:
  assumes "\<And>x. x \<in> set xs \<Longrightarrow> q x = (\<not> r x \<and> \<not> p x)" and "\<And>x. x \<in> set xs \<Longrightarrow> r x \<Longrightarrow> \<not> p x"
  shows "mset (filter p xs) + mset (filter q xs) + mset (filter r xs) = mset xs"
  using assms by (induction xs) auto

lemma distinct_filter_split:
  "distinct (map f xs) \<Longrightarrow> distinct (map f (filter p xs @ filter (\<lambda>x. \<not> p x) xs))"
  by (induction xs) auto

lemma rows_split_missing:
  assumes "c \<noteq> NaT"
  shows "mset (rows_lt c data) + mset (rows_ge c data)
           + mset (filter (\<lambda>x. timeStamp (snd x) = NaT) data) = mset data"
  unfolding rows_lt_filter rows_ge_filter
  by (rule mset_filter_three) (auto simp: dt_ge_iff [OF assms] dt_less_def)

lemma rows_ge_complement:
  assumes "c \<noteq> NaT" and "\<forall>x \<in> set data. timeStamp (snd x) \<noteq> NaT"
  shows "rows_ge c data = filter (\<lambda>x. \<not> dt_less (timeStamp (snd x)) c) data"
  unfolding rows_ge_filter
  using assms(2) by (intro filter_cong refl) (simp add: dt_ge_iff [OF assms(1)])

lemma cutovers_present: "ts_2017_02_01 \<noteq> NaT" "ts_2017_01_01 \<noteq> NaT"
  by (simp_all add: ts_2017_02_01_def ts_2017_01_01_def ns_per_day_def NaT_def)

text \<open>
  Claim C2, as stated, fails on a frame with a missing timestamp: the record is in
  neither subset, so the two subsets together are not the input. Of three records with
  the labels 0, 1, 2, where the timestamp of 1 is missing, \<open>train\<close> holds 0 and
  \<open>test\<close> holds 2.
\<close>

theorem temporal_split_missing_counterexample:
  "map fst (read_csv energy_missing) = [0, 1, 2] \<and>
   map fst (train (read_csv energy_missing)) = [0] \<and>
   map fst (test (read_csv energy_missing)) = [2] \<and>
   mset (train (read_csv energy_missing)) + mset (test (read_csv energy_missing))
     \<noteq> mset (read_csv energy_missing)"
proof -
  have a: "map fst (read_csv energy_missing) = [0, 1, 2]"
    and b: "map fst (train (read_csv energy_missing)) = [0]"
    and c: "map fst (test (read_csv energy_missing)) = [2]"
    by (simp_all add: train_def test_def rows_lt_def rows_ge_def bool_index_def read_csv_def
        energy_missing_def dt_less_def dt_ge_def ts_2017_02_01_def ns_per_day_def NaT_def)
  have "length (read_csv energy_missing) = 3"
    using arg_cong [OF a, of length] by simp
  moreover have "length (train (read_csv energy_missing)) = 1"
    using arg_cong [OF b, of length] by simp
  moreover have "length (test (read_csv energy_missing)) = 1"
    using arg_cong [OF c, of length] by simp
  ultimately have "size (mset (train (read_csv energy_missing)) + mset (test (read_csv energy_missing)))
      \<noteq> size (mset (read_csv energy_missing))"
    by simp
  then have "mset (train (read_csv energy_missing)) + mset (test (read_csv energy_missing))
     \<noteq> mset (read_csv energy_missing)"
    by (rule contrapos_nn) simp
  with a b c show ?thesis by simp
qed

text \<open>
  Claim C2, amended. For every frame and every cutover, the train side is exactly the
  rows whose timestamp is present and before the cutover and the test side exactly the
  rows whose timestamp is present and at or after it, each in the order of the frame; no
  row is on both sides, and a row whose timestamp is missing is on neither: the two sides
  and the rows without a timestamp together hold every row of the frame exactly once.
  When no timestamp is missing the two sides together hold every row exactly once, and
  distinct labels stay distinct. In particular the notebook's \<open>train\<close>, cut at
  2017-02-01, holds no row dated 2017-02-01 or later.
\<close>

theorem temporal_split_partition:
  "rows_lt c data = filter (\<lambda>x. dt_less (timeStamp (snd x)) c) data \<and>
   rows_ge c data = filter (\<lambda>x. dt_ge (timeStamp (snd x)) c) data \<and>
   (\<forall>x \<in> set (rows_lt c data). timeStamp (snd x) \<noteq> NaT \<and> sint (timeStamp (snd x)) < sint c) \<and>
   (\<forall>x \<in> set (rows_ge c data). timeStamp (snd x) \<noteq> NaT \<and> sint c \<le> sint (timeStamp (snd x))) \<and>
   set (rows_lt c data) \<inter> set (rows_ge c data) = {} \<and>
   (c \<noteq> NaT \<longrightarrow>
      mset (rows_lt c data) + mset (rows_ge c data)
        + mset (filter (\<lambda>x. timeStamp (snd x) = NaT) data) = mset data) \<and>
   (c \<noteq> NaT \<and> (\<forall>x \<in> set data. timeStamp (snd x) \<noteq> NaT) \<longrightarrow>
      mset (rows_lt c data) + mset (rows_ge c data) = mset data \<and>
      (distinct (map fst data) \<longrightarrow> distinct (map fst (rows_lt c data @ rows_ge c data)))) \<and>
   filter (\<lambda>x. dt_ge (timeStamp (snd x)) ts_2017_02_01) (train data) = []"
proof -
  have sides: "\<forall>x \<in> set (rows_lt c data). timeStamp (snd x) \<noteq> NaT \<and> sint (timeStamp (snd x)) < sint c"
    "\<forall>x \<in> set (rows_ge c data). timeStamp (snd x) \<noteq> NaT \<and> sint c \<le> sint (timeStamp (snd x))"
    by (auto simp: rows_lt_filter rows_ge_filter dt_less_def dt_ge_def)
  have disjoint: "set (rows_lt c data) \<inter> set (rows_ge c data) = {}"
    by (auto simp: rows_lt_filter rows_ge_filter dt_less_def dt_ge_def)
  have three: "c \<noteq> NaT \<longrightarrow>
      mset (rows_lt c data) + mset (rows_ge c data)
        + mset (filter (\<lambda>x. timeStamp (snd x) = NaT) data) = mset data"
    using rows_split_missing by blast
  have two: "mset (rows_lt c data) + mset (rows_ge c data) = mset data \<and>
      (distinct (map fst data) \<longrightarrow> distinct (map fst (rows_lt c data @ rows_ge c data)))"
    if "c \<noteq> NaT" and "\<forall>x \<in> set data. timeStamp (snd x) \<noteq> NaT"
    unfolding rows_ge_complement [OF that] rows_lt_filter
    using mset_filter_split distinct_filter_split by blast
  have "filter (\<lambda>x. dt_ge (timeStamp (snd x)) ts_2017_02_01) (train data) = []"
    by (auto simp: train_def rows_lt_filter filter_empty_conv dt_less_def dt_ge_def)
  with sides disjoint three two show ?thesis
    by (simp add: rows_lt_filter rows_ge_filter)
qed

theorem temporal_split_partition_witness:
  "ts_2017_02_01 \<noteq> NaT \<and>
   map (\<lambda>x. timeStamp (snd x) = NaT) (read_csv energy_sample)
     = [False, False, False, False, False, False] \<and>
   map fst (train (read_csv energy_sample)) = [0, 1, 2, 3] \<and>
   map fst (test (read_csv energy_sample)) = [4, 5] \<and>
   map fst (rows_lt ts_2017_01_01 (read_csv energy_sample)) = [0, 1] \<and>
   map fst (rows_ge ts_2017_01_01 (read_csv energy_sample)) = [2, 3, 4, 5] \<and>
   distinct (map fst (read_csv energy_sample)) \<and>
   filter (\<lambda>x. dt_ge (timeStamp (snd x)) ts_2017_02_01) (train (read_csv energy_sample)) = []"
  using temporal_split_partition [of ts_2017_02_01 "read_csv energy_sample"]
  by (simp add: train_def test_def rows_lt_def rows_ge_def bool_index_def read_csv_def
      energy_sample_def dt_less_def dt_ge_def ts_2017_02_01_def ts_2017_01_01_def
      ns_per_day_def NaT_def)

section \<open>Properties of the RUL column\<close>

lemma sint_smax: "sint (smax a b) = max (sint b) (sint a)"
  by (simp add: smax_def max_def)

lemma sint_fold_smax: "sint (fold smax xs x) = fold max (map sint xs) (sint x)"
  by (induction xs arbitrary: x) (simp_all add: sint_smax max.commute)

lemma series_max_Max:
  "xs \<noteq> [] \<Longrightarrow> \<exists>m. series_max xs = Some m \<and> sint m = Max (sint ` set xs)"
proof (cases xs)
  case Nil
  assume "xs \<noteq> []"
  with Nil show ?thesis by simp
next
  case (Cons a list)
  have "sint (fold smax list a) = Max (set (sint a # map sint list))"
    unfolding sint_fold_smax by (rule Max.set_eq_fold [symmetric])
  then show ?thesis
    unfolding Cons by simp
qed

lemma word_diff_sint: "a - b = (word_of_int (sint a - sint b) :: int64)"
  by simp

lemma assignrul_Max:
  "assignrul g
     = map (\<lambda>x. (fst x, row.extend (snd x)
         \<lparr>rul = word_of_int (Max (sint ` set (map (\<lambda>x. cycle (snd x)) g)) - sint (cycle (snd x)))\<rparr>)) g"
proof (cases g)
  case Nil
  then show ?thesis by (simp add: assignrul_def)
next
  case (Cons x xs)
  then have "map (\<lambda>x. cycle (snd x)) g \<noteq> []" by simp
  from series_max_Max [OF this] obtain m
    where m: "series_max (map (\<lambda>x. cycle (snd x)) g) = Some m"
      "sint m = Max (sint ` set (map (\<lambda>x. cycle (snd x)) g))"
    by blast
  have "m - c = word_of_int (Max (sint ` set (map (\<lambda>x. cycle (snd x)) g)) - sint c)" for c
    unfolding m(2) [symmetric] by (rule word_diff_sint)
  with m(1) show ?thesis
    by (simp add: assignrul_def case_prod_unfold)
qed

lemma group_cycles:
  "sint ` set (map (\<lambda>x. cycle (snd x)) (filter (\<lambda>x. unit (snd x) = k) df))
     = (\<lambda>r. sint (cycle r)) ` {r \<in> set (map snd df). unit r = k}"
  by force

lemma assignrul_group:
  "assignrul (filter (\<lambda>x. unit (snd x) = k) df)
     = map (\<lambda>x. (fst x, row.extend (snd x)
           \<lparr>rul = word_of_int (rul_target (map snd df) (snd x))\<rparr>))
         (filter (\<lambda>x. unit (snd x) = k) df)"
  unfolding assignrul_Max group_cycles
  by (rule map_cong) (simp_all add: rul_target_def group_max_cycle_def)

lemma mset_concat_filter:
  "distinct ks \<Longrightarrow>
     mset (concat (map (\<lambda>k. filter (\<lambda>x. f x = k) xs) ks)) = mset (filter (\<lambda>x. f x \<in> set ks) xs)"
proof (induction ks)
  case Nil
  then show ?case by simp
next
  case (Cons k ks)
  have "mset (filter (\<lambda>x. f x = k) xs) + mset (filter (\<lambda>x. f x \<in> set ks) xs)
          = mset (filter (\<lambda>x. f x = k \<or> f x \<in> set ks) xs)"
    using Cons.prems by (induction xs) auto
  with Cons show ?case by simp
qed

lemma mset_groups:
  "mset (concat (map (\<lambda>k. filter (\<lambda>x. f x = k) xs) (sort_key h (remdups (map f xs))))) = mset xs"
proof -
  have "filter (\<lambda>x. f x \<in> set (sort_key h (remdups (map f xs)))) xs = xs"
    by (simp add: filter_id_conv)
  then show ?thesis
    using mset_concat_filter [of "sort_key h (remdups (map f xs))" f xs] by simp
qed

lemma groups_concat:
  "concat (map (\<lambda>(k, g). assignrul g) (groupby_unit df))
     = map (\<lambda>x. (fst x, row.extend (snd x) \<lparr>rul = word_of_int (rul_target (map snd df) (snd x))\<rparr>))
         (concat (map (\<lambda>k. filter (\<lambda>x. unit (snd x) = k) df)
            (sort_key sint (remdups (map (\<lambda>x. unit (snd x)) df)))))"
  by (simp add: groupby_unit_def comp_def assignrul_group map_concat case_prod_unfold)

lemma reindex_groups:
  fixes df :: "(nat \<times> 'a) list" and g :: "'a \<Rightarrow> 'b" and f :: "nat \<times> 'a \<Rightarrow> 'k"
    and h :: "'k \<Rightarrow> 'o::linorder"
  assumes "distinct (map fst df)"
  shows "reindex (map fst df)
           (map (\<lambda>x. (fst x, g (snd x)))
              (concat (map (\<lambda>k. filter (\<lambda>x. f x = k) df) (sort_key h (remdups (map f df))))))
         = Inr (map (\<lambda>x. (fst x, Some (g (snd x)))) df)"
proof -
  define perm where
    "perm = concat (map (\<lambda>k. filter (\<lambda>x. f x = k) df) (sort_key h (remdups (map f df))))"
  define result where "result = map (\<lambda>x. (fst x, g (snd x))) perm"
  have perm: "mset perm = mset df"
    unfolding perm_def by (rule mset_groups)
  have "map fst result = map fst perm"
    by (simp add: result_def comp_def)
  moreover have "mset (map fst perm) = mset (map fst df)"
    using perm by (metis mset_map)
  ultimately have dist: "distinct (map fst result)"
    using assms by (metis mset_eq_imp_distinct_iff)
  have "set perm = set df"
    using perm by (rule mset_eq_setD)
  then have mem: "set result = (\<lambda>x. (fst x, g (snd x))) ` set df"
    by (simp add: result_def)
  have look: "map_of result (fst x) = Some (g (snd x))" if "x \<in> set df" for x
  proof -
    from that have "(fst x, g (snd x)) \<in> set result"
      unfolding mem by (rule imageI)
    with dist show ?thesis
      by (rule map_of_is_SomeI)
  qed
  have "map (\<lambda>l. (l, map_of result l)) (map fst df) = map (\<lambda>x. (fst x, Some (g (snd x)))) df"
    by (simp add: look)
  with dist show ?thesis
    by (simp add: reindex_def result_def perm_def)
qed

lemma groupby_apply_assignrul:
  assumes "distinct (map fst df)"
  shows "groupby_apply assignrul df = Inr (labelled (map snd df) df)"
  unfolding groupby_apply_def groups_concat labelled_def
  using reindex_groups [OF assms,
      of "\<lambda>r. row.extend r \<lparr>rul = word_of_int (rul_target (map snd df) r)\<rparr>"
      "\<lambda>x. unit (snd x)" sint]
  by (simp add: case_prod_unfold)

lemma read_csv_labels: "map fst (read_csv rows) = [0..<length rows]" "map snd (read_csv rows) = rows"
  by (simp_all add: read_csv_def)

lemma train_new_read_csv: "train_new (read_csv rows) = Inr (labelled rows (read_csv rows))"
  using groupby_apply_assignrul [of "read_csv rows"]
  by (simp add: train_new_def read_csv_labels)

lemma group_max_ge:
  "r \<in> set rows \<Longrightarrow> sint (cycle r) \<le> group_max_cycle rows (unit r)"
  unfolding group_max_cycle_def by (rule Max_ge) auto

lemma group_max_attained:
  assumes "r \<in> set rows"
  shows "\<exists>m \<in> set rows. unit m = unit r \<and> sint (cycle m) = group_max_cycle rows (unit r)"
proof -
  let ?S = "(\<lambda>r. sint (cycle r)) ` {r' \<in> set rows. unit r' = unit r}"
  have "finite ?S" and "?S \<noteq> {}"
    using assms by auto
  then have "Max ?S \<in> ?S"
    by (rule Max_in)
  then show ?thesis
    unfolding group_max_cycle_def by auto
qed

lemma group_max_eq:
  assumes "r \<in> set rows"
    and "\<forall>r' \<in> set rows. unit r' = unit r \<longrightarrow> sint (cycle r') \<le> sint (cycle r)"
  shows "group_max_cycle rows (unit r) = sint (cycle r)"
proof -
  from group_max_attained [OF assms(1)] obtain m
    where "m \<in> set rows" "unit m = unit r" "sint (cycle m) = group_max_cycle rows (unit r)"
    by blast
  with assms(2) have "group_max_cycle rows (unit r) \<le> sint (cycle r)"
    by auto
  with group_max_ge [OF assms(1)] show ?thesis
    by simp
qed

lemma sint_stored_target:
  "0 \<le> k \<Longrightarrow> k < 2 ^ 63 \<Longrightarrow> sint (word_of_int k :: int64) = k"
  by (simp add: sint_sbintrunc' signed_take_bit_int_eq_self)

text \<open>
  Claim C1, as stated, fails where the subtraction leaves the int64 range. For one unit
  with the cycles -1 and 2^63 - 1 the target of the first record is not the largest cycle
  minus its cycle, which is 2^63, but the least int64; so the target grows from the
  first record to the second while the cycle grows.
\<close>

theorem deriveRUL_overflow_counterexample:
  "map_sum id (map (\<lambda>(i, x). map_option (\<lambda>l. (sint (unit l), sint (cycle l), sint (rul l))) x))
       (train_new (read_csv rul_overflow))
     = Inr [Some (1, - 1, - (2 ^ 63)), Some (1, 2 ^ 63 - 1, 0)]"
  by (simp add: train_new_def groupby_apply_def groupby_unit_def assignrul_def reindex_def
      read_csv_def rul_overflow_def sample_row_def row.defs lrow.defs smax_def)

text \<open>
  Claim C1, amended. For every list of records read into a frame,
  \<open>groupby('unit').apply(assignrul)\<close> returns the frame with the same rows in the same
  order, each with the target the int64 subtraction gives: the largest cycle of the
  record's unit minus the record's cycle, wrapped into int64. The target is 0 at every
  record whose cycle is the largest of its unit, and every unit has such a record. For
  every record whose difference fits int64 (as it does whenever the cycles of a unit
  spread over less than 2^63, so for all cycle counts) the stored target is that
  difference: it is not negative, and within a unit a larger cycle never has a larger
  target. The witness is the scenario: unit 1 with cycles 1, 2, 3 gets 2, 1, 0 and unit 2
  with cycles 1, 2 gets 1, 0.
\<close>

theorem deriveRUL_targets:
  "train_new (read_csv rows)
     = Inr (map (\<lambda>(i, r). (i, Some (row.extend r \<lparr>rul = word_of_int (rul_target rows r)\<rparr>)))
         (read_csv rows)) \<and>
   (\<forall>r \<in> set rows.
      rul_target rows r
        = Max ((\<lambda>r'. sint (cycle r')) ` {r' \<in> set rows. unit r' = unit r}) - sint (cycle r) \<and>
      0 \<le> rul_target rows r) \<and>
   (\<forall>r \<in> set rows.
      (\<forall>r' \<in> set rows. unit r' = unit r \<longrightarrow> sint (cycle r') \<le> sint (cycle r)) \<longrightarrow>
      (word_of_int (rul_target rows r) :: int64) = 0) \<and>
   (\<forall>r \<in> set rows. \<exists>m \<in> set rows.
      unit m = unit r \<and> (word_of_int (rul_target rows m) :: int64) = 0) \<and>
   (\<forall>r \<in> set rows. rul_target rows r < 2 ^ 63 \<longrightarrow>
      sint (word_of_int (rul_target rows r) :: int64) = rul_target rows r) \<and>
   (\<forall>r \<in> set rows. \<forall>r' \<in> set rows.
      unit r = unit r' \<and> sint (cycle r) \<le> sint (cycle r') \<and>
      rul_target rows r < 2 ^ 63 \<and> rul_target rows r' < 2 ^ 63 \<longrightarrow>
      sint (word_of_int (rul_target rows r') :: int64)
        \<le> sint (word_of_int (rul_target rows r) :: int64))"
proof -
  have nonneg: "0 \<le> rul_target rows r" if "r \<in> set rows" for r
    using group_max_ge [OF that] by (simp add: rul_target_def)
  have stored: "sint (word_of_int (rul_target rows r) :: int64) = rul_target rows r"
    if "r \<in> set rows" "rul_target rows r < 2 ^ 63" for r
    using nonneg [OF that(1)] that(2) by (rule sint_stored_target)
  have "train_new (read_csv rows)
     = Inr (map (\<lambda>(i, r). (i, Some (row.extend r \<lparr>rul = word_of_int (rul_target rows r)\<rparr>)))
         (read_csv rows))"
    using train_new_read_csv [of rows] by (simp add: labelled_def)
  moreover have "\<forall>r \<in> set rows.
      rul_target rows r
        = Max ((\<lambda>r'. sint (cycle r')) ` {r' \<in> set rows. unit r' = unit r}) - sint (cycle r) \<and>
      0 \<le> rul_target rows r"
    using nonneg by (simp add: rul_target_def group_max_cycle_def)
  moreover have "\<forall>r \<in> set rows.
      (\<forall>r' \<in> set rows. unit r' = unit r \<longrightarrow> sint (cycle r') \<le> sint (cycle r)) \<longrightarrow>
      (word_of_int (rul_target rows r) :: int64) = 0"
    using group_max_eq by (simp add: rul_target_def)
  moreover have "\<forall>r \<in> set rows. \<exists>m \<in> set rows.
      unit m = unit r \<and> (word_of_int (rul_target rows m) :: int64) = 0"
  proof
    fix r assume "r \<in> set rows"
    from group_max_attained [OF this] obtain m
      where "m \<in> set rows" "unit m = unit r" "sint (cycle m) = group_max_cycle rows (unit r)"
      by blast
    then have "m \<in> set rows" "unit m = unit r" "rul_target rows m = 0"
      by (simp_all add: rul_target_def)
    then show "\<exists>m \<in> set rows. unit m = unit r \<and> (word_of_int (rul_target rows m) :: int64) = 0"
      by (intro bexI [of _ m]) simp_all
  qed
  moreover have "\<forall>r \<in> set rows. rul_target rows r < 2 ^ 63 \<longrightarrow>
      sint (word_of_int (rul_target rows r) :: int64) = rul_target rows r"
    using stored by blast
  moreover have "\<forall>r \<in> set rows. \<forall>r' \<in> set rows.
      unit r = unit r' \<and> sint (cycle r) \<le> sint (cycle r') \<and>
      rul_target rows r < 2 ^ 63 \<and> rul_target rows r' < 2 ^ 63 \<longrightarrow>
      sint (word_of_int (rul_target rows r') :: int64)
        \<le> sint (word_of_int (rul_target rows r) :: int64)"
  proof (intro ballI impI)
    fix r r' assume r: "r \<in> set rows" "r' \<in> set rows"
      and h: "unit r = unit r' \<and> sint (cycle r) \<le> sint (cycle r') \<and>
        rul_target rows r < 2 ^ 63 \<and> rul_target rows r' < 2 ^ 63"
    from h have "rul_target rows r' \<le> rul_target rows r"
      by (simp add: rul_target_def)
    with stored [OF r(1)] stored [OF r(2)] h
    show "sint (word_of_int (rul_target rows r') :: int64)
        \<le> sint (word_of_int (rul_target rows r) :: int64)"
      by simp
  qed
  ultimately show ?thesis
    by blast
qed

theorem deriveRUL_targets_witness:
  "map_sum id (map (\<lambda>(i, x). (i, map_option (\<lambda>l. sint (rul l)) x))) (train_new (read_csv rul_scenario))
     = Inr [(0, Some 2), (1, Some 1), (2, Some 0), (3, Some 1), (4, Some 0)] \<and>
   map (\<lambda>r. word_of_int (rul_target rul_scenario r) :: int64) rul_scenario = [2, 1, 0, 1, 0]"
proof -
  have eval: "train_new (read_csv rul_scenario)
     = Inr [(0, Some (row.extend (sample_row 1 1) \<lparr>rul = 2\<rparr>)),
            (1, Some (row.extend (sample_row 1 2) \<lparr>rul = 1\<rparr>)),
            (2, Some (row.extend (sample_row 1 3) \<lparr>rul = 0\<rparr>)),
            (3, Some (row.extend (sample_row 2 1) \<lparr>rul = 1\<rparr>)),
            (4, Some (row.extend (sample_row 2 2) \<lparr>rul = 0\<rparr>))]"
    by (simp add: train_new_def groupby_apply_def groupby_unit_def assignrul_def reindex_def
        read_csv_def rul_scenario_def sample_row_def row.defs lrow.defs smax_def)
  from deriveRUL_targets [of rul_scenario]
  have "train_new (read_csv rul_scenario)
     = Inr (map (\<lambda>(i, r). (i, Some (row.extend r \<lparr>rul = word_of_int (rul_target rul_scenario r)\<rparr>)))
         (read_csv rul_scenario))"
    by (rule conjunct1)
  with eval have "map (\<lambda>r. word_of_int (rul_target rul_scenario r) :: int64) rul_scenario
      = [2, 1, 0, 1, 0]"
    by (simp add: read_csv_def rul_scenario_def row.defs lrow.defs)
  moreover have "map_sum id (map (\<lambda>(i, x). (i, map_option (\<lambda>l. sint (rul l)) x)))
       (train_new (read_csv rul_scenario))
     = Inr [(0, Some 2), (1, Some 1), (2, Some 0), (3, Some 1), (4, Some 0)]"
    unfolding eval by (simp add: row.defs lrow.defs)
  ultimately show ?thesis
    by simp
qed

section \<open>Properties of the splits\<close>

lemma alternating_permutation:
  "\<forall>st n. mset (fst (permutation alternating st n)) = mset [0..<n]"
proof -
  have "mset (rotate1 xs) = mset xs" for xs :: "nat list"
    by (cases xs) simp_all
  then show ?thesis
    by (simp add: alternating_def)
qed

lemma n_test_le:
  assumes "0 < ts" and "ts < 1"
  shows "nat \<lceil>ts * real n\<rceil> \<le> n"
proof -
  have "ts * real n \<le> real n"
    using assms by (simp add: mult_left_le_one_le)
  then have "\<lceil>ts * real n\<rceil> \<le> int n"
    by (intro ceiling_le) simp
  then show ?thesis by linarith
qed

lemma safe_indexing_ok:
  "set ind \<subseteq> {0..<length a} \<Longrightarrow> safe_indexing a ind = Inr (map (nth a) ind)"
  by (auto simp: safe_indexing_def list_all_iff)

lemma mset_map_nth_perm:
  assumes "mset p = mset [0..<length a]"
  shows "mset (map (nth a) p) = mset a"
proof -
  have "mset (map (nth a) p) = image_mset (nth a) (mset p)"
    by simp
  also have "\<dots> = mset (map (nth a) [0..<length a])"
    unfolding assms by simp
  also have "\<dots> = mset a"
    by (simp add: map_nth)
  finally show ?thesis .
qed

lemma zip_map_nth: "length a = length b \<Longrightarrow> set ind \<subseteq> {0..<length a} \<Longrightarrow>
   zip (map (nth a) ind) (map (nth b) ind) = map (nth (zip a b)) ind"
  by (induction ind) auto

lemma train_test_split_result:
  fixes X :: "'a list" and y :: "'b list"
  assumes len: "length X = length y" and ts: "0 < ts" "ts < 1"
    and ok: "refuse_empty \<longrightarrow> nat \<lceil>ts * real (length X)\<rceil> < length X"
    and sh: "shuffled np random_state (length X) g = (p, g')"
    and perm: "mset p = mset [0..<length X]"
  shows "train_test_split np refuse_empty X y ts random_state g
     = (Inr (map (nth X) (drop (nat \<lceil>ts * real (length X)\<rceil>) p),
             map (nth X) (take (nat \<lceil>ts * real (length X)\<rceil>) p),
             map (nth y) (drop (nat \<lceil>ts * real (length X)\<rceil>) p),
             map (nth y) (take (nat \<lceil>ts * real (length X)\<rceil>) p)), g')"
proof -
  let ?k = "nat \<lceil>ts * real (length X)\<rceil>"
  have lp: "length p = length X"
    using perm by (metis length_upt mset_eq_length minus_nat.diff_0)
  have sp: "set p = {0..<length X}"
    using perm by (metis mset_eq_setD set_upt)
  have tr: "take (length X - ?k) (drop ?k p) = drop ?k p"
    by (simp add: lp)
  have guard: "\<not> (refuse_empty \<and> length X - ?k = 0)"
    using ok by auto
  have "set (take ?k p) \<subseteq> {0..<length X}" and "set (drop ?k p) \<subseteq> {0..<length X}"
    using sp set_take_subset [of ?k p] set_drop_subset [of ?k p] by auto
  then have "safe_indexing X (take ?k p) = Inr (map (nth X) (take ?k p))"
    and "safe_indexing X (drop ?k p) = Inr (map (nth X) (drop ?k p))"
    and "safe_indexing y (take ?k p) = Inr (map (nth y) (take ?k p))"
    and "safe_indexing y (drop ?k p) = Inr (map (nth y) (drop ?k p))"
    using len by (simp_all add: safe_indexing_ok)
  then show ?thesis
    using len ts sh tr guard by (simp add: train_test_split_def Let_def)
qed

lemma split_msets:
  assumes "mset p = mset [0..<length a]"
  shows "mset (map (nth a) (drop k p)) + mset (map (nth a) (take k p)) = mset a"
proof -
  have "mset (map (nth a) (drop k p)) + mset (map (nth a) (take k p))
          = mset (map (nth a) (take k p @ drop k p))"
    by (simp del: append_take_drop_id)
  then show ?thesis
    using mset_map_nth_perm [OF assms] by simp
qed

lemma ceiling_fraction_bounds:
  "3 * n \<le> 10 * nat \<lceil>(3 / 10) * real n\<rceil> \<and> 10 * nat \<lceil>(3 / 10) * real n\<rceil> < 3 * n + 10"
proof -
  let ?c = "\<lceil>(3 / 10) * real n\<rceil>"
  have bounds: "of_int ?c - 1 < (3 / 10) * real n \<and> (3 / 10) * real n \<le> of_int ?c"
    by (rule ceiling_correct)
  have "0 \<le> (3 / 10) * real n" by simp
  with bounds have nonneg: "0 \<le> ?c"
    by linarith
  from bounds have a: "3 * int n \<le> 10 * ?c" and b: "10 * ?c < 3 * int n + 10"
    by linarith+
  from a b nonneg show ?thesis
    by linarith
qed

lemma train_not_empty: "2 \<le> n \<Longrightarrow> nat \<lceil>(3 / 10) * real n\<rceil> < n"
  using ceiling_fraction_bounds [of n] by linarith

lemma train_empty: "n \<le> 1 \<Longrightarrow> n - nat \<lceil>(3 / 10) * real n\<rceil> = 0"
  using ceiling_fraction_bounds [of n] by linarith

lemma length_rows_split:
  assumes "c \<noteq> NaT" and "\<forall>x \<in> set df. timeStamp (snd x) \<noteq> NaT"
  shows "length (rows_lt c df) + length (rows_ge c df) = length df"
  unfolding rows_ge_complement [OF assms] rows_lt_filter by (rule sum_length_filter_compl)

lemma pop_demand_result:
  "pop_demand df
     = Inr (map (\<lambda>x. FloatE (demand (snd x))) df,
            map (\<lambda>x. (fst x, [(''timeStamp'', TimeC (timeStamp (snd x))),
                                (''precip'', FloatE (precip (snd x))),
                                (''temp'', FloatE (temp (snd x)))])) df)"
  unfolding pop_demand_def
  by (induction df) (auto simp: pop_row_def erow_items_def)

lemma split_cell_result:
  fixes X :: "'a list" and y :: "'b list"
  assumes len: "length X = length y"
    and perm: "\<forall>st n. mset (fst (permutation np st n)) = mset [0..<n]"
    and ok: "refuse_empty \<longrightarrow> 2 \<le> length X"
  shows "\<exists>X_tr X_te y_tr y_te.
           split_cell np refuse_empty X y g = (Inr (X_tr, X_te, y_tr, y_te), g) \<and>
           mset X_tr + mset X_te = mset X \<and>
           mset y_tr + mset y_te = mset y \<and>
           mset (zip X_tr y_tr) + mset (zip X_te y_te) = mset (zip X y) \<and>
           length X_te = nat \<lceil>(3 / 10) * real (length X)\<rceil> \<and>
           length X_tr + length X_te = length X \<and>
           length y_tr = length X_tr \<and> length y_te = length X_te"
proof -
  define p where "p = fst (permutation np (RandomState np 100) (length X))"
  let ?k = "nat \<lceil>(3 / 10) * real (length X)\<rceil>"
  have mp: "mset p = mset [0..<length X]"
    using perm by (simp add: p_def)
  have lp: "length p = length X"
    using mp by (metis length_upt mset_eq_length minus_nat.diff_0)
  have sp: "set p = {0..<length X}"
    using mp by (metis mset_eq_setD set_upt)
  have kn: "?k \<le> length X"
    by (rule n_test_le) simp_all
  have sh: "shuffled np (Some 100) (length X) g = (p, g)"
    by (simp add: shuffled_def p_def)
  have guard: "refuse_empty \<longrightarrow> ?k < length X"
    using ok train_not_empty [of "length X"] by blast
  have res: "split_cell np refuse_empty X y g
     = (Inr (map (nth X) (drop ?k p), map (nth X) (take ?k p),
             map (nth y) (drop ?k p), map (nth y) (take ?k p)), g)"
    unfolding split_cell_def
    by (rule train_test_split_result [OF len _ _ guard sh mp]) simp_all
  have mz: "mset p = mset [0..<length (zip X y)]"
    using mp len by simp
  have sub: "set (take ?k p) \<subseteq> {0..<length X}" "set (drop ?k p) \<subseteq> {0..<length X}"
    using sp set_take_subset [of ?k p] set_drop_subset [of ?k p] by auto
  have z1: "zip (map (nth X) (drop ?k p)) (map (nth y) (drop ?k p)) = map (nth (zip X y)) (drop ?k p)"
    by (rule zip_map_nth [OF len sub(2)])
  have z2: "zip (map (nth X) (take ?k p)) (map (nth y) (take ?k p)) = map (nth (zip X y)) (take ?k p)"
    by (rule zip_map_nth [OF len sub(1)])
  have "mset (zip (map (nth X) (drop ?k p)) (map (nth y) (drop ?k p)))
          + mset (zip (map (nth X) (take ?k p)) (map (nth y) (take ?k p))) = mset (zip X y)"
    unfolding z1 z2 by (rule split_msets [OF mz])
  moreover have "mset (map (nth X) (drop ?k p)) + mset (map (nth X) (take ?k p)) = mset X"
    by (rule split_msets [OF mp])
  moreover have "mset (map (nth y) (drop ?k p)) + mset (map (nth y) (take ?k p)) = mset y"
    using mp len by (intro split_msets) simp
  moreover have "length (map (nth X) (take ?k p)) = ?k"
    using kn lp by simp
  moreover have "length (map (nth X) (drop ?k p)) + length (map (nth X) (take ?k p)) = length X"
    using kn lp by simp
  ultimately show ?thesis
    unfolding res by (intro exI conjI) (rule refl, simp_all)
qed

lemma split_cell_refuses:
  assumes "length X = length y" and "length X \<le> 1"
  shows "split_cell np True X y g = (Inl (ValueError ''the resulting train set will be empty''), g)"
  using assms train_empty [of "length y"]
  by (simp add: split_cell_def train_test_split_def Let_def)

lemma X_values_labelled: "length (X_values df) = length df"
  by (simp add: X_values_def X_items_def)

lemma y_values_labelled:
  "y_values (labelled rows df) = map (\<lambda>x. word_of_int (rul_target rows (snd x))) df"
  by (induction df)
    (simp_all add: y_values_def y_items_def labelled_def lrow_items_def iloc_cols_def
      case_prod_unfold row.defs lrow.defs)

lemma length_rows_split_missing:
  assumes "c \<noteq> NaT"
  shows "length (rows_lt c df) + length (rows_ge c df)
           + length (filter (\<lambda>x. timeStamp (snd x) = NaT) df) = length df"
proof -
  have "size (mset (rows_lt c df) + mset (rows_ge c df)
           + mset (filter (\<lambda>x. timeStamp (snd x) = NaT) df)) = size (mset df)"
    unfolding rows_split_missing [OF assms] by (rule refl)
  then show ?thesis by (simp flip: mset_filter)
qed

lemma train_present: "\<forall>x \<in> set (train data). timeStamp (snd x) \<noteq> NaT"
  by (auto simp: train_def rows_lt_filter dt_less_def)

lemma energy_row_counts:
  "\<exists>y_train X_train y_valid X_valid y_test X_test.
     train_Xy data = Inr (y_train, X_train) \<and> valid_Xy data = Inr (y_valid, X_valid) \<and>
     test_Xy data = Inr (y_test, X_test) \<and>
     length y_train = length X_train \<and> length y_valid = length X_valid \<and>
     length y_test = length X_test \<and>
     length X_train + length X_valid + length X_test
       + length (filter (\<lambda>x. timeStamp (snd x) = NaT) data) = length data"
  using length_rows_split [OF cutovers_present(2) train_present, of data]
    length_rows_split_missing [OF cutovers_present(1), of data]
  by (simp add: train_Xy_def valid_Xy_def test_Xy_def pop_demand_result train_def test_def)

text \<open>
  Claim C3, as stated, fails on a frame with a missing timestamp: the record is in none of
  the subsets, so the row counts do not add up to the rows loaded. Of three records with
  the labels 0, 1, 2, where the timestamp of 1 is missing, the train features hold 0, the
  validation features nothing and the test features 2.
\<close>

theorem split_counts_missing_counterexample:
  "length (read_csv energy_missing) = 3 \<and>
   map_sum id (\<lambda>(ys, X). (length ys, map fst X)) (train_Xy (read_csv energy_missing)) = Inr (1, [0]) \<and>
   map_sum id (\<lambda>(ys, X). (length ys, map fst X)) (valid_Xy (read_csv energy_missing)) = Inr (0, []) \<and>
   map_sum id (\<lambda>(ys, X). (length ys, map fst X)) (test_Xy (read_csv energy_missing)) = Inr (1, [2])"
  by (simp add: train_Xy_def valid_Xy_def test_Xy_def pop_demand_result train_def test_def
      rows_lt_def rows_ge_def bool_index_def read_csv_def energy_missing_def dt_less_def
      dt_ge_def ts_2017_02_01_def ts_2017_01_01_def ns_per_day_def NaT_def)

text \<open>
  Claim C3, amended. For every frame the temporal split puts every row whose timestamp is
  present in exactly one of its two subsets and a row whose timestamp is missing in none;
  when no timestamp is missing the two subsets hold every row exactly once and their
  sizes add up to the rows of the frame. In the energy notebook the train, validation
  and test rows, and the rows without a timestamp, add up to the rows of the loaded
  frame; so train + validation + test is the total exactly when no timestamp is missing.
  For every pair of arrays of equal length the random split of the notebook (test size
  0.3, seed 100), with a generator whose draws are permutations, puts every (features,
  target) pair in exactly one of train and test; the test size is 0.3 of the rows rounded
  up, so it is within one row of the fraction, and the train size is the rest. This is
  so for every input in the releases of the library that return an empty train side,
  and for every input of at least two rows in the releases that refuse one, which raise
  on fewer. In the maintenance notebook, which has no validation set, the train and test
  rows then add up to the loaded records.
\<close>

theorem split_partitions:
  fixes X :: "'a list" and y :: "'b list"
  assumes "\<forall>st n. mset (fst (permutation np st n)) = mset [0..<n]"
  shows "(c \<noteq> NaT \<longrightarrow>
            mset (rows_lt c data) + mset (rows_ge c data)
              + mset (filter (\<lambda>x. timeStamp (snd x) = NaT) data) = mset data) \<and>
         (c \<noteq> NaT \<and> (\<forall>x \<in> set data. timeStamp (snd x) \<noteq> NaT) \<longrightarrow>
            mset (rows_lt c data) + mset (rows_ge c data) = mset data \<and>
            length (rows_lt c data) + length (rows_ge c data) = length data) \<and>
         (\<exists>y_train X_train y_valid X_valid y_test X_test.
            train_Xy data = Inr (y_train, X_train) \<and> valid_Xy data = Inr (y_valid, X_valid) \<and>
            test_Xy data = Inr (y_test, X_test) \<and>
            length y_train = length X_train \<and> length y_valid = length X_valid \<and>
            length y_test = length X_test \<and>
            length X_train + length X_valid + length X_test
              + length (filter (\<lambda>x. timeStamp (snd x) = NaT) data) = length data \<and>
            ((\<forall>x \<in> set data. timeStamp (snd x) \<noteq> NaT) \<longrightarrow>
               length X_train + length X_valid + length X_test = length data)) \<and>
         (length X = length y \<and> (refuse_empty \<longrightarrow> 2 \<le> length X) \<longrightarrow>
            (\<exists>X_tr X_te y_tr y_te.
               split_cell np refuse_empty X y g = (Inr (X_tr, X_te, y_tr, y_te), g) \<and>
               mset (zip X_tr y_tr) + mset (zip X_te y_te) = mset (zip X y) \<and>
               mset X_tr + mset X_te = mset X \<and> mset y_tr + mset y_te = mset y \<and>
               length y_tr = length X_tr \<and> length y_te = length X_te \<and>
               length X_tr + length X_te = length X \<and>
               3 * length X \<le> 10 * length X_te \<and> 10 * length X_te < 3 * length X + 10)) \<and>
         (length X = length y \<and> length X \<le> 1 \<longrightarrow>
            split_cell np True X y g
              = (Inl (ValueError ''the resulting train set will be empty''), g)) \<and>
         ((refuse_empty \<longrightarrow> 2 \<le> length rows) \<longrightarrow>
            (\<exists>X_tr X_te y_tr y_te.
               maintenance_sets np refuse_empty rows g = (Inr (X_tr, X_te, y_tr, y_te), g) \<and>
               length y_tr = length X_tr \<and> length y_te = length X_te \<and>
               length X_tr + length X_te = length rows))"
proof -
  have three: "c \<noteq> NaT \<longrightarrow>
            mset (rows_lt c data) + mset (rows_ge c data)
              + mset (filter (\<lambda>x. timeStamp (snd x) = NaT) data) = mset data"
    using rows_split_missing by blast
  have two: "mset (rows_lt c data) + mset (rows_ge c data) = mset data \<and>
            length (rows_lt c data) + length (rows_ge c data) = length data"
    if "c \<noteq> NaT" "\<forall>x \<in> set data. timeStamp (snd x) \<noteq> NaT"
    using length_rows_split [OF that] mset_filter_split
    unfolding rows_ge_complement [OF that] rows_lt_filter by blast
  have energy: "\<exists>y_train X_train y_valid X_valid y_test X_test.
            train_Xy data = Inr (y_train, X_train) \<and> valid_Xy data = Inr (y_valid, X_valid) \<and>
            test_Xy data = Inr (y_test, X_test) \<and>
            length y_train = length X_train \<and> length y_valid = length X_valid \<and>
            length y_test = length X_test \<and>
            length X_train + length X_valid + length X_test
              + length (filter (\<lambda>x. timeStamp (snd x) = NaT) data) = length data \<and>
            ((\<forall>x \<in> set data. timeStamp (snd x) \<noteq> NaT) \<longrightarrow>
               length X_train + length X_valid + length X_test = length data)"
  proof -
    from energy_row_counts [of data] obtain y_train X_train y_valid X_valid y_test X_test where
      r: "train_Xy data = Inr (y_train, X_train)" "valid_Xy data = Inr (y_valid, X_valid)"
        "test_Xy data = Inr (y_test, X_test)"
        "length y_train = length X_train" "length y_valid = length X_valid"
        "length y_test = length X_test"
        "length X_train + length X_valid + length X_test
          + length (filter (\<lambda>x. timeStamp (snd x) = NaT) data) = length data"
      by blast
    have "length X_train + length X_valid + length X_test = length data"
      if "\<forall>x \<in> set data. timeStamp (snd x) \<noteq> NaT"
    proof -
      from that have "filter (\<lambda>x. timeStamp (snd x) = NaT) data = []"
        by (simp add: filter_empty_conv)
      with r(7) show ?thesis by simp
    qed
    with r show ?thesis
      by blast
  qed
  have random: "\<exists>X_tr X_te y_tr y_te.
               split_cell np refuse_empty X y g = (Inr (X_tr, X_te, y_tr, y_te), g) \<and>
               mset (zip X_tr y_tr) + mset (zip X_te y_te) = mset (zip X y) \<and>
               mset X_tr + mset X_te = mset X \<and> mset y_tr + mset y_te = mset y \<and>
               length y_tr = length X_tr \<and> length y_te = length X_te \<and>
               length X_tr + length X_te = length X \<and>
               3 * length X \<le> 10 * length X_te \<and> 10 * length X_te < 3 * length X + 10"
    if len: "length X = length y" and ok: "refuse_empty \<longrightarrow> 2 \<le> length X"
  proof -
    from split_cell_result [OF len assms ok, of g] obtain X_tr X_te y_tr y_te where
      r: "split_cell np refuse_empty X y g = (Inr (X_tr, X_te, y_tr, y_te), g)"
        "mset X_tr + mset X_te = mset X" "mset y_tr + mset y_te = mset y"
        "mset (zip X_tr y_tr) + mset (zip X_te y_te) = mset (zip X y)"
        "length X_te = nat \<lceil>(3 / 10) * real (length X)\<rceil>"
        "length X_tr + length X_te = length X"
        "length y_tr = length X_tr" "length y_te = length X_te"
      by blast
    from r(5) ceiling_fraction_bounds [of "length X"]
    have "3 * length X \<le> 10 * length X_te \<and> 10 * length X_te < 3 * length X + 10"
      by simp
    with r show ?thesis
      by blast
  qed
  have refused: "length X = length y \<and> length X \<le> 1 \<longrightarrow>
            split_cell np True X y g
              = (Inl (ValueError ''the resulting train set will be empty''), g)"
    by (simp add: split_cell_refuses)
  have maintenance: "\<exists>X_tr X_te y_tr y_te.
            maintenance_sets np refuse_empty rows g = (Inr (X_tr, X_te, y_tr, y_te), g) \<and>
            length y_tr = length X_tr \<and> length y_te = length X_te \<and>
            length X_tr + length X_te = length rows"
    if ok: "refuse_empty \<longrightarrow> 2 \<le> length rows"
  proof -
    define df where "df = labelled rows (read_csv rows)"
    have ldf: "length df = length rows"
      by (simp add: df_def labelled_def read_csv_def)
    have lx: "length (X_values df) = length rows"
      by (simp add: X_values_labelled ldf)
    have "length (y_values df) = length (read_csv rows)"
      unfolding df_def y_values_labelled by simp
    then have len: "length (X_values df) = length (y_values df)"
      by (simp add: lx read_csv_def)
    from ok lx have ok': "refuse_empty \<longrightarrow> 2 \<le> length (X_values df)"
      by simp
    from split_cell_result [OF len assms ok', of g] obtain X_tr X_te y_tr y_te where
      r: "split_cell np refuse_empty (X_values df) (y_values df) g
            = (Inr (X_tr, X_te, y_tr, y_te), g)"
        "length X_tr + length X_te = length (X_values df)"
        "length y_tr = length X_tr" "length y_te = length X_te"
      by blast
    have "maintenance_sets np refuse_empty rows g = (Inr (X_tr, X_te, y_tr, y_te), g)"
      using r(1) by (simp add: maintenance_sets_def train_new_read_csv df_def)
    with r lx show ?thesis
      by simp
  qed
  from three two energy random refused maintenance show ?thesis
    by blast
qed

theorem split_partitions_witness:
  "(\<forall>st n. mset (fst (permutation alternating st n)) = mset [0..<n]) \<and>
   ts_2017_02_01 \<noteq> NaT \<and>
   map (\<lambda>x. timeStamp (snd x) = NaT) (read_csv energy_sample)
     = [False, False, False, False, False, False] \<and>
   split_cell alternating True [10, 11, 12, 13, 14 :: nat] [0, 1, 2, 3, 4 :: nat] (7 :: nat)
     = (Inr ([12, 11, 10], [14, 13], [2, 1, 0], [4, 3]), 7) \<and>
   split_cell alternating True [10 :: nat] [0 :: nat] (7 :: nat)
     = (Inl (ValueError ''the resulting train set will be empty''), 7) \<and>
   split_cell alternating False [10 :: nat] [0 :: nat] (7 :: nat) = (Inr ([], [10], [], [0]), 7) \<and>
   map fst (rows_lt ts_2017_02_01 (read_csv energy_sample)) = [0, 1, 2, 3] \<and>
   map fst (rows_ge ts_2017_02_01 (read_csv energy_sample)) = [4, 5] \<and>
   map_sum id (\<lambda>(ys, X). (length ys, map fst X)) (train_Xy (read_csv energy_sample)) = Inr (2, [0, 1]) \<and>
   map_sum id (\<lambda>(ys, X). (length ys, map fst X)) (valid_Xy (read_csv energy_sample)) = Inr (2, [2, 3]) \<and>
   map_sum id (\<lambda>(ys, X). (length ys, map fst X)) (test_Xy (read_csv energy_sample)) = Inr (2, [4, 5]) \<and>
   map_sum id (\<lambda>(X_tr, X_te, y_tr, y_te). (length X_tr, length X_te, y_tr, y_te))
       (fst (maintenance_sets alternating True rul_scenario (7 :: nat)))
     = Inr (3, 2, [0, 1, 2], [0, 1])"
proof -
  have perm: "\<forall>st n. mset (fst (permutation alternating st n)) = mset [0..<n]"
    by (rule alternating_permutation)
  have present: "ts_2017_02_01 \<noteq> NaT"
    "map (\<lambda>x. timeStamp (snd x) = NaT) (read_csv energy_sample)
     = [False, False, False, False, False, False]"
    by (simp_all add: read_csv_def energy_sample_def ts_2017_02_01_def ns_per_day_def NaT_def)
  have cell: "split_cell alternating True [10, 11, 12, 13, 14 :: nat] [0, 1, 2, 3, 4 :: nat] (7 :: nat)
     = (Inr ([12, 11, 10], [14, 13], [2, 1, 0], [4, 3]), 7)"
    "split_cell alternating True [10 :: nat] [0 :: nat] (7 :: nat)
     = (Inl (ValueError ''the resulting train set will be empty''), 7)"
    "split_cell alternating False [10 :: nat] [0 :: nat] (7 :: nat) = (Inr ([], [10], [], [0]), 7)"
    by (simp_all add: split_cell_def train_test_split_def shuffled_def alternating_def
        safe_indexing_def Let_def)
  have rows: "map fst (rows_lt ts_2017_02_01 (read_csv energy_sample)) = [0, 1, 2, 3]"
    "map fst (rows_ge ts_2017_02_01 (read_csv energy_sample)) = [4, 5]"
    by (simp_all add: rows_lt_def rows_ge_def bool_index_def read_csv_def dt_less_def dt_ge_def
      energy_sample_def ts_2017_02_01_def ns_per_day_def NaT_def)
  have energy:
    "map_sum id (\<lambda>(ys, X). (length ys, map fst X)) (train_Xy (read_csv energy_sample)) = Inr (2, [0, 1])"
    "map_sum id (\<lambda>(ys, X). (length ys, map fst X)) (valid_Xy (read_csv energy_sample)) = Inr (2, [2, 3])"
    "map_sum id (\<lambda>(ys, X). (length ys, map fst X)) (test_Xy (read_csv energy_sample)) = Inr (2, [4, 5])"
    by (simp_all add: train_Xy_def valid_Xy_def test_Xy_def pop_demand_result train_def test_def
      rows_lt_def rows_ge_def bool_index_def read_csv_def energy_sample_def dt_less_def dt_ge_def
      ts_2017_02_01_def ts_2017_01_01_def ns_per_day_def NaT_def comp_def)
  have maint: "map_sum id (\<lambda>(X_tr, X_te, y_tr, y_te). (length X_tr, length X_te, y_tr, y_te))
       (fst (maintenance_sets alternating True rul_scenario (7 :: nat)))
     = Inr (3, 2, [0, 1, 2], [0, 1])"
    by (simp add: maintenance_sets_def train_new_def groupby_apply_def groupby_unit_def
        assignrul_def reindex_def read_csv_def rul_scenario_def sample_row_def row.defs lrow.defs
        smax_def X_values_def X_items_def y_values_def y_items_def lrow_items_def iloc_cols_def
        split_cell_def train_test_split_def shuffled_def alternating_def safe_indexing_def Let_def)
  from perm present cell rows energy maint show ?thesis
    using split_partitions [OF perm, of ts_2017_02_01 "read_csv energy_sample"
        "[10, 11, 12, 13, 14 :: nat]" "[0, 1, 2, 3, 4 :: nat]" True 7 rul_scenario]
    by blast
qed

section \<open>Properties of the feature and target columns\<close>

lemma sensor_names_eq: "sensor_names =
     [''os1'', ''os2'', ''os3'', ''sm1'', ''sm2'', ''sm3'', ''sm4'', ''sm5'', ''sm6'', ''sm7'',
      ''sm8'', ''sm9'', ''sm10'', ''sm11'', ''sm12'', ''sm13'', ''sm14'', ''sm15'', ''sm16'',
      ''sm17'', ''sm18'', ''sm19'', ''sm20'', ''sm21'']"
  by (simp add: sensor_names_def iloc_cols_def names_def)

lemma lrow_items_names: "map fst (lrow_items x) = names @ [''rul'']"
  by (cases x) (simp_all add: lrow_items_def names_def comp_def)

lemma iloc_cols_map: "map f (iloc_cols i j xs) = iloc_cols i j (map f xs)"
  by (simp add: iloc_cols_def take_map drop_map)

lemma X_items_names: "xs \<in> set (X_items df) \<Longrightarrow> map fst xs = sensor_names"
  by (auto simp: X_items_def iloc_cols_map lrow_items_names sensor_names_def)

lemma y_items_names: "ys \<in> set (y_items df) \<Longrightarrow> map fst ys = [''rul'']"
  by (auto simp: y_items_def iloc_cols_map lrow_items_names) (simp add: iloc_cols_def names_def)

lemma sensor_names_exclude:
  "''unit'' \<notin> set sensor_names \<and> ''cycle'' \<notin> set sensor_names \<and> ''rul'' \<notin> set sensor_names"
  by (simp add: sensor_names_eq)

lemma X_values_labelled_eq:
  "X_values (labelled rows df) = map (\<lambda>x. sensors (snd x)) df"
  by (induction df)
    (simp_all add: X_values_def X_items_def labelled_def lrow_items_def iloc_cols_def
      case_prod_unfold row.defs lrow.defs sensors_def)

lemma y_items_labelled:
  "y_items (labelled rows df)
     = map (\<lambda>x. [(''rul'', IntC (word_of_int (rul_target rows (snd x))))]) df"
  by (induction df)
    (simp_all add: y_items_def labelled_def lrow_items_def iloc_cols_def
      case_prod_unfold row.defs lrow.defs)

text \<open>
  Claim C4, as stated, fails in the energy notebook: \<open>X_test\<close> is the test frame
  without its \<open>demand\<close> column only, so every feature row still holds the ordering
  column \<open>timeStamp\<close>.
\<close>

theorem energy_features_counterexample:
  "map_sum id (\<lambda>(ys, X). map (\<lambda>x. (map fst (snd x), map_of (snd x) ''timeStamp'')) X)
       (test_Xy (read_csv energy_sample))
     = Inr [([''timeStamp'', ''precip'', ''temp''], Some (TimeC (17198 * ns_per_day))),
            ([''timeStamp'', ''precip'', ''temp''], Some (TimeC (17226 * ns_per_day)))]"
  by (simp add: test_Xy_def pop_demand_result test_def rows_ge_def bool_index_def read_csv_def
      energy_sample_def dt_less_def dt_ge_def ts_2017_02_01_def ns_per_day_def NaT_def)


text \<open>
  Claim C4, amended. In the maintenance notebook the feature rows are the 24 setting and
  measurement columns of \<open>train_new\<close> and never the columns \<open>unit\<close>, \<open>cycle\<close> or
  \<open>rul\<close>; the target is the \<open>rul\<close> column alone, as \<open>assignrul\<close> stored it. In the
  energy notebook the feature
  rows are the frame without the target column \<open>demand\<close>, and they keep the ordering
  column \<open>timeStamp\<close> with its values (the notebook names it to the trainer as the time
  column).
\<close>

theorem feature_columns:
  "(\<forall>xs \<in> set (X_items df). map fst xs = sensor_names) \<and>
   ''unit'' \<notin> set sensor_names \<and> ''cycle'' \<notin> set sensor_names \<and> ''rul'' \<notin> set sensor_names \<and>
   (\<forall>ys \<in> set (y_items df). map fst ys = [''rul'']) \<and>
   (\<exists>tn. train_new (read_csv rows) = Inr tn \<and>
      X_values tn = map sensors rows \<and>
      y_items tn = map (\<lambda>r. [(''rul'', IntC (word_of_int (rul_target rows r)))]) rows) \<and>
   (\<exists>ys X. pop_demand data = Inr (ys, X) \<and>
      ys = map (\<lambda>x. FloatE (demand (snd x))) data \<and>
      (\<forall>x \<in> set X. map fst (snd x) = [''timeStamp'', ''precip'', ''temp'']) \<and>
      map (\<lambda>x. map_of (snd x) ''timeStamp'') X = map (\<lambda>x. Some (TimeC (timeStamp (snd x)))) data)"
proof -
  have "\<exists>tn. train_new (read_csv rows) = Inr tn \<and>
      X_values tn = map sensors rows \<and>
      y_items tn = map (\<lambda>r. [(''rul'', IntC (word_of_int (rul_target rows r)))]) rows"
  proof -
    have "X_values (labelled rows (read_csv rows)) = map sensors (map snd (read_csv rows))"
      by (simp add: X_values_labelled_eq)
    moreover have "y_items (labelled rows (read_csv rows))
        = map (\<lambda>r. [(''rul'', IntC (word_of_int (rul_target rows r)))]) (map snd (read_csv rows))"
      by (simp add: y_items_labelled comp_def)
    ultimately show ?thesis
      by (simp add: train_new_read_csv read_csv_labels)
  qed
  moreover have "\<exists>ys X. pop_demand data = Inr (ys, X) \<and>
      ys = map (\<lambda>x. FloatE (demand (snd x))) data \<and>
      (\<forall>x \<in> set X. map fst (snd x) = [''timeStamp'', ''precip'', ''temp'']) \<and>
      map (\<lambda>x. map_of (snd x) ''timeStamp'') X = map (\<lambda>x. Some (TimeC (timeStamp (snd x)))) data"
    unfolding pop_demand_result by auto
  ultimately show ?thesis
    using X_items_names [of _ df] y_items_names [of _ df] sensor_names_exclude by blast
qed

theorem feature_columns_witness:
  "map (map fst) (X_items [(0, Some (row.extend (sample_row 1 1) \<lparr>rul = 2\<rparr>)), (1, None)])
     = [sensor_names, sensor_names] \<and>
   map (map fst) (y_items [(0, Some (row.extend (sample_row 1 1) \<lparr>rul = 2\<rparr>)), (1, None)])
     = [[''rul''], [''rul'']] \<and>
   map_sum id y_values (train_new (read_csv rul_scenario)) = Inr [2, 1, 0, 1, 0] \<and>
   map_sum id y_items (train_new (read_csv [sample_row 1 1])) = Inr [[(''rul'', IntC 0)]] \<and>
   map_sum id (map (take 3) \<circ> X_values) (train_new (read_csv [sample_row 1 1]))
     = Inr [[Num 0, Num 0, Num 100]] \<and>
   test_Xy (read_csv energy_sample)
     = Inr ([FloatE (Num 5300), FloatE (Num 5000)],
            [(4, [(''timeStamp'', TimeC (17198 * ns_per_day)), (''precip'', FloatE NaN),
                  (''temp'', FloatE (Num 28))]),
             (5, [(''timeStamp'', TimeC (17226 * ns_per_day)), (''precip'', FloatE (Num 0)),
                  (''temp'', FloatE (Num 35))])])"
proof -
  have a: "map (map fst) (X_items [(0, Some (row.extend (sample_row 1 1) \<lparr>rul = 2\<rparr>)), (1, None)])
     = [sensor_names, sensor_names]"
    using feature_columns [of "[(0, Some (row.extend (sample_row 1 1) \<lparr>rul = 2\<rparr>)), (1, None)]" "[]" "[]"]
    by (simp add: X_items_def)
  have b: "map (map fst) (y_items [(0, Some (row.extend (sample_row 1 1) \<lparr>rul = 2\<rparr>)), (1, None)])
     = [[''rul''], [''rul'']]"
    by (simp add: y_items_def iloc_cols_map lrow_items_names) (simp add: iloc_cols_def names_def)
  have c: "map_sum id y_values (train_new (read_csv rul_scenario)) = Inr [2, 1, 0, 1, 0]"
    by (simp add: train_new_def groupby_apply_def groupby_unit_def
        assignrul_def reindex_def read_csv_def rul_scenario_def sample_row_def row.defs lrow.defs
        smax_def y_values_def y_items_def lrow_items_def iloc_cols_def)
  have c': "map_sum id y_items (train_new (read_csv [sample_row 1 1])) = Inr [[(''rul'', IntC 0)]]"
    by (simp add: train_new_def groupby_apply_def groupby_unit_def
        assignrul_def reindex_def read_csv_def sample_row_def row.defs lrow.defs
        y_items_def lrow_items_def iloc_cols_def)
  have d: "map_sum id (map (take 3) \<circ> X_values) (train_new (read_csv [sample_row 1 1]))
     = Inr [[Num 0, Num 0, Num 100]]"
    by (simp add: train_new_def groupby_apply_def groupby_unit_def
        assignrul_def reindex_def read_csv_def sample_row_def row.defs lrow.defs
        X_values_def X_items_def lrow_items_def iloc_cols_def)
  have e: "test_Xy (read_csv energy_sample)
     = Inr ([FloatE (Num 5300), FloatE (Num 5000)],
            [(4, [(''timeStamp'', TimeC (17198 * ns_per_day)), (''precip'', FloatE NaN),
                  (''temp'', FloatE (Num 28))]),
             (5, [(''timeStamp'', TimeC (17226 * ns_per_day)), (''precip'', FloatE (Num 0)),
                  (''temp'', FloatE (Num 35))])])"
    by (simp add: test_Xy_def pop_demand_result test_def rows_ge_def bool_index_def read_csv_def
        energy_sample_def dt_less_def dt_ge_def ts_2017_02_01_def ns_per_day_def NaT_def)
  from a b c c' d e show ?thesis by simp
qed

section \<open>Properties of the scoring scripts\<close>

lemma json_dumps_set: "\<exists>m. json_dumps (PSet vs) = Inl (TypeError m)"
  by simp

lemma try_block_raises:
  "\<exists>m. try_block predict timestamp p t = Inl (TypeError m)"
proof (cases "set_display [timestamp, p, t]")
  case (Inl e)
  then show ?thesis
    by (auto simp: try_block_def set_display_def split: list.splits)
next
  case (Inr s)
  then obtain vs where "s = PSet vs"
    by (auto simp: set_display_def split: list.splits)
  with Inr show ?thesis
    by (simp add: try_block_def)
qed

lemma after_dumps_raises:
  "after_dumps predict rawdata = Inl (NameError (''name '' @ repr ''numpy'' @ '' is not defined''))"
  by (simp add: after_dumps_def load_name_def score_energy_demand_globals_def)

lemma run_error_object:
  "\<exists>m. score_energy_demand_run predict timestamp p t = Inr (JObj [(''error'', JStr m)])"
  using try_block_raises [of predict timestamp p t]
  by (auto simp: score_energy_demand_run_def)

text \<open>
  Claim C9. For every model and every three arguments, \<open>run\<close> of the energy script
  returns an object whose one key is \<open>error\<close>. When the arguments are hashable, as
  strings and numbers are, the message is that of the TypeError \<open>json.dumps\<close> raises
  on the set. The statements after \<open>json.dumps\<close> raise NameError for \<open>numpy\<close>
  whatever the text, so the model is never asked: the result is the same for any two
  models.
\<close>

theorem score_energy_demand_run_always_error:
  "(\<exists>m. score_energy_demand_run predict timestamp p t = Inr (JObj [(''error'', JStr m)])) \<and>
   (hashable timestamp \<and> hashable p \<and> hashable t \<longrightarrow>
      (\<exists>m. json_dumps (PSet (remdups [timestamp, p, t])) = Inl (TypeError m) \<and>
           score_energy_demand_run predict timestamp p t = Inr (JObj [(''error'', JStr m)]))) \<and>
   (\<forall>rawdata. after_dumps predict rawdata
      = Inl (NameError (''name '' @ repr ''numpy'' @ '' is not defined''))) \<and>
   score_energy_demand_run predict timestamp p t = score_energy_demand_run predict' timestamp p t"
proof -
  have "score_energy_demand_run predict timestamp p t = score_energy_demand_run predict' timestamp p t"
    by (simp add: score_energy_demand_run_def try_block_def after_dumps_raises split: sum.splits)
  moreover have "hashable timestamp \<and> hashable p \<and> hashable t \<longrightarrow>
      (\<exists>m. json_dumps (PSet (remdups [timestamp, p, t])) = Inl (TypeError m) \<and>
           score_energy_demand_run predict timestamp p t = Inr (JObj [(''error'', JStr m)]))"
    by (simp add: score_energy_demand_run_def try_block_def set_display_def)
  ultimately show ?thesis
    using run_error_object [of predict timestamp p t] after_dumps_raises [of predict]
    by blast
qed

theorem score_energy_demand_run_always_error_witness:
  "hashable (PStr ''2012-01-01 00:00:00'') \<and> hashable (PStr ''0.0'') \<and>
   score_energy_demand_run sample_forecaster (PStr ''2012-01-01 00:00:00'') (PStr ''0.0'') (PStr ''0.0'')
     = Inr (JObj [(''error'', JStr ''Object of type 'set' is not JSON serializable'')]) \<and>
   score_energy_demand_run sample_forecaster (PList []) (PFloat (Num 0)) (PFloat (Num 0))
     = Inr (JObj [(''error'', JStr (''unhashable type: '' @ repr ''list''))])"
  using score_energy_demand_run_always_error [of sample_forecaster "PStr ''2012-01-01 00:00:00''"
      "PStr ''0.0''" "PStr ''0.0''" sample_forecaster]
  by (simp add: score_energy_demand_run_def try_block_def set_display_def)

lemma reshape_row:
  "reshape [1, - 1] a = Inr \<lparr>shape = [1, length (flat a)], flat = flat a\<rparr>"
  by (simp add: reshape_def Let_def)

lemma score_run_eq:
  "score_run predict rows =
     (case predict (reshaped rows) of Inl e \<Rightarrow> Inl e | Inr y_hat \<Rightarrow> Inr (JList (map JNum y_hat)))"
  by (simp add: score_run_def reshape_row reshaped_def)

lemma JList_shapes: "\<not> is_result_object (JList js)" "\<not> is_error_object (JList js)"
  by simp_all

lemma sample_features_eval: "length sample_features = 24"
  by (simp add: sample_features_def sensors_def)

lemma np_array_one_row: "np_array [r] = \<lparr>shape = [1, length r], flat = map ANum r\<rparr>"
  by (simp add: np_array_def)

lemma np_array_two_rows:
  "length r = length r' \<Longrightarrow> np_array [r, r'] = \<lparr>shape = [2, length r], flat = map ANum (r @ r')\<rparr>"
  by (simp add: np_array_def)

text \<open>
  Claim C8, as stated, fails for \<open>run\<close> of \<open>score.py\<close>, the one that takes the body
  with \<open>data\<close>: on success it returns the bare list of predictions, which is neither
  of the two objects, and on failure it raises.
\<close>

theorem score_run_bare_list_counterexample:
  "score_run sample_model [sample_features] = Inr (JList [JNum (Num 112)]) \<and>
   \<not> is_result_object (JList [JNum (Num 112)]) \<and>
   \<not> is_error_object (JList [JNum (Num 112)]) \<and>
   score_run sample_model [[Num 1, Num 2]]
     = Inl (ValueError ''Number of features of the model must match the input'')"
  by (simp add: score_run_eq reshaped_def np_array_one_row sample_model_def sample_features_eval)

text \<open>
  Claim C8, amended. \<open>run\<close> of the energy script returns, in every case, an object
  of one of the two shapes \<open>{"result": [...]}\<close> and \<open>{"error": "<message>"}\<close>.
  \<open>run\<close> of \<open>score.py\<close> returns the bare JSON list of the model's predictions when
  the model predicts, never one of the two objects, and raises the model's exception
  exactly when the model raises.
\<close>

theorem run_response_shapes:
  "(\<exists>j. score_energy_demand_run forecaster timestamp p t = Inr j \<and>
        (is_result_object j \<or> is_error_object j)) \<and>
   (\<forall>j. score_run predict rows = Inr j \<longrightarrow>
        (\<exists>y_hat. predict (reshaped rows) = Inr y_hat \<and> j = JList (map JNum y_hat)) \<and>
        \<not> is_result_object j \<and> \<not> is_error_object j) \<and>
   (\<forall>e. (score_run predict rows = Inl e) = (predict (reshaped rows) = Inl e))"
proof -
  from run_error_object [of forecaster timestamp p t]
  have "\<exists>j. score_energy_demand_run forecaster timestamp p t = Inr j \<and>
        (is_result_object j \<or> is_error_object j)"
    by auto
  moreover have "\<forall>j. score_run predict rows = Inr j \<longrightarrow>
        (\<exists>y_hat. predict (reshaped rows) = Inr y_hat \<and> j = JList (map JNum y_hat)) \<and>
        \<not> is_result_object j \<and> \<not> is_error_object j"
    by (auto simp: score_run_eq split: sum.splits)
  moreover have "\<forall>e. (score_run predict rows = Inl e) = (predict (reshaped rows) = Inl e)"
    by (auto simp: score_run_eq split: sum.splits)
  ultimately show ?thesis by blast
qed

theorem run_response_shapes_witness:
  "score_energy_demand_run sample_forecaster (PStr ''2012-01-01 00:00:00'') (PStr ''0.0'') (PStr ''0.0'')
     = Inr (JObj [(''error'', JStr ''Object of type 'set' is not JSON serializable'')]) \<and>
   is_error_object (JObj [(''error'', JStr ''Object of type 'set' is not JSON serializable'')]) \<and>
   score_run sample_model [sample_features] = Inr (JList [JNum (Num 112)]) \<and>
   score_run sample_model [[Num 1, Num 2]]
     = Inl (ValueError ''Number of features of the model must match the input'')"
  using run_response_shapes [of sample_forecaster "PStr ''2012-01-01 00:00:00''" "PStr ''0.0''"
      "PStr ''0.0''" sample_model "[sample_features]"]
  by (simp add: score_energy_demand_run_def try_block_def set_display_def
      score_run_eq reshaped_def np_array_one_row sample_model_def sample_features_eval)

text \<open>
  Claim C10, as stated, fails in its last part: the reshape to \<open>(1, -1)\<close> does not
  fail on a request whose element count is not that of one feature row. Two rows of 24
  values become one row of 48; it is the model that rejects it.
\<close>

theorem reshape_never_fails_counterexample:
  "length (concat [sample_features, sample_features]) = 48 \<and>
   reshape [1, - 1] (np_array [sample_features, sample_features])
     = Inr \<lparr>shape = [1, 48], flat = map ANum (sample_features @ sample_features)\<rparr> \<and>
   reshape [1, - 1] (np_array [[Num 1, Num 2], [Num 3, Num 4]])
     = Inr \<lparr>shape = [1, 4], flat = [ANum (Num 1), ANum (Num 2), ANum (Num 3), ANum (Num 4)]\<rparr> \<and>
   score_run sample_model [sample_features, sample_features]
     = Inl (ValueError ''Number of features of the model must match the input'')"
  by (simp add: reshape_row np_array_two_rows sample_features_eval score_run_eq reshaped_def
      sample_model_def)


text \<open>
  Claim C10, amended. For every request the \<open>data\<close> array is reshaped to one row that
  holds all its elements, and the reshape never fails; so the model is given exactly one
  sample, and with a model that returns one prediction for each row the returned list
  has length 1, however many rows the request has. A request of several rows of equal
  length \<open>k\<close> is scored as one sample of (number of rows) times \<open>k\<close> values; whether a
  sample of the wrong width is rejected is up to the model.
\<close>

theorem score_run_single_sample:
  assumes "\<forall>X ys. predict X = Inr ys \<longrightarrow> length ys = n_samples X"
  shows "reshape [1, - 1] (np_array rows) = Inr (reshaped rows) \<and>
         n_samples (reshaped rows) = 1 \<and>
         (\<forall>j. score_run predict rows = Inr j \<longrightarrow> (\<exists>v. j = JList [JNum v])) \<and>
         (\<forall>k. rows \<noteq> [] \<and> list_all (\<lambda>r. length r = k) rows \<longrightarrow>
            reshaped rows = \<lparr>shape = [1, length rows * k], flat = map ANum (concat rows)\<rparr>)"
proof -
  have a: "reshape [1, - 1] (np_array rows) = Inr (reshaped rows)"
    by (simp add: reshape_row reshaped_def)
  have b: "n_samples (reshaped rows) = 1"
    by (simp add: n_samples_def reshaped_def)
  have c: "\<exists>v. j = JList [JNum v]" if "score_run predict rows = Inr j" for j
  proof -
    from that obtain y_hat where y: "predict (reshaped rows) = Inr y_hat" "j = JList (map JNum y_hat)"
      by (auto simp: score_run_eq split: sum.splits)
    with assms b have "length y_hat = 1"
      by auto
    then obtain v where "y_hat = [v]"
      by (cases y_hat) auto
    with y show ?thesis by simp
  qed
  have d: "reshaped rows = \<lparr>shape = [1, length rows * k], flat = map ANum (concat rows)\<rparr>"
    if "rows \<noteq> []" "list_all (\<lambda>r. length r = k) rows" for k
  proof -
    from that obtain r rs where rows: "rows = r # rs"
      by (cases rows) auto
    with that(2) have same: "list_all (\<lambda>r'. length r' = length r) rs" and k: "length r = k"
      by (auto simp: list_all_iff)
    have "length (concat rows) = length rows * k"
      using that(2) by (induction rows) auto
    then show ?thesis
      using same by (simp add: reshaped_def np_array_def rows)
  qed
  from a b c d show ?thesis
    by blast
qed

theorem score_run_single_sample_witness:
  "score_run sample_model [sample_features] = Inr (JList [JNum (Num 112)]) \<and>
   reshaped [[Num 1, Num 2], [Num 3, Num 4], [Num 5, Num 6]]
     = \<lparr>shape = [1, 6], flat = [ANum (Num 1), ANum (Num 2), ANum (Num 3), ANum (Num 4),
         ANum (Num 5), ANum (Num 6)]\<rparr>"
proof -
  have contract: "\<forall>X ys. sample_model X = Inr ys \<longrightarrow> length ys = n_samples X"
    by (auto simp: sample_model_def n_samples_def split: list.splits if_splits)
  show ?thesis
    using score_run_single_sample [OF contract, of "[[Num 1, Num 2], [Num 3, Num 4], [Num 5, Num 6]]"]
    by (simp add: score_run_eq reshaped_def np_array_one_row sample_model_def sample_features_eval
        np_array_def)
qed

end
